theory Spec2Isabelle
  imports Complex_Main "HOL-Library.Word"
begin

unbundle bit_operations_syntax

section \<open>Data model (utils.h, NIFTI.h, streamline.h)\<close>

text \<open>
  The C++ type \<open>float\<close> is modelled by \<open>real\<close> in the tracking code: the control flow
  of the tracker only compares, adds and multiplies coordinates, and the idealised
  arithmetic keeps every branch of the source.  The length filter of \<open>doTracking\<close> is
  modelled with the rounding of its float products (\<open>float32\<close> below).  \<open>Vec3Df\<close> and
  \<open>Vec3Di\<close> are the structs of utils.h with fields x, y, z, written as triples.
\<close>

type_synonym Vec3Df = "real \<times> real \<times> real"
type_synonym Vec3Di = "int \<times> int \<times> int"

text \<open>\<open>Normalize\<close> of utils.h: the vector is left as it is when its norm is not positive.\<close>

definition Normalize :: "Vec3Df \<Rightarrow> Vec3Df" where
  "Normalize v =
     (case v of (vx, vy, vz) \<Rightarrow>
        let norm = sqrt (vx * vx + vy * vy + vz * vz)
        in if norm > 0 then (vx / norm, vy / norm, vz / norm) else (vx, vy, vz))"

text \<open>
  \<open>class tracking_config\<close>: the six public fields.
\<close>

record tracking_config =
  seeds :: int
  minLength :: int
  maxLength :: int
  stepSize :: real
  volFracThr :: real
  maxAngle :: real

text \<open>
  \<open>NIFTI<T>\<close>: the header fields \<open>hdr->dim[i]\<close> and \<open>hdr->pixdim[i]\<close> that the tracker
  reads, and the voxel array \<open>img\<close>.  A Blitz array is indexed without a bounds check, so
  the array is a total function of its indices; every access of the tracker that the
  source guards is guarded in the model by the same test.
\<close>

record 'i NIFTI =
  hdr_dim :: "nat \<Rightarrow> int"
  hdr_pixdim :: "nat \<Rightarrow> real"
  img :: 'i

type_synonym DIR_image = "int \<Rightarrow> int \<Rightarrow> int \<Rightarrow> int \<Rightarrow> real"
type_synonym UINT8_image = "int \<Rightarrow> int \<Rightarrow> int \<Rightarrow> 8 word"

text \<open>
  \<open>class streamline\<close>: the members that persist between calls.  \<open>ANGLE_thr\<close> is the
  private field that \<open>setConfig\<close> fills with \<open>cos(maxAngle/180.0*3.14159265)\<close>; the
  scratch members COORD_seed, COORD, dir, VOXEL_dsi, VOXEL_wm and tmp are local values
  of the functions below.  \<open>niiSEED\<close> is \<open>None\<close> for the NULL pointer.
\<close>

record streamline =
  ANGLE_thr :: real
  CONFIG :: tracking_config
  niiDIR :: "DIR_image NIFTI"
  niiMASK :: "UINT8_image NIFTI"
  niiSEED :: "UINT8_image NIFTI option"

section \<open>Direction selection (streamline::pickBestDir)\<close>

text \<open>The two reads of the direction field for ranked candidate \<open>i\<close> of a voxel.\<close>

definition volFrac :: "streamline \<Rightarrow> Vec3Di \<Rightarrow> int \<Rightarrow> real" where
  "volFrac S voxel i = (case voxel of (vx, vy, vz) \<Rightarrow> img (niiDIR S) vx vy vz (i * 4))"

definition candDir :: "streamline \<Rightarrow> Vec3Di \<Rightarrow> int \<Rightarrow> Vec3Df" where
  "candDir S voxel i =
     (case voxel of (vx, vy, vz) \<Rightarrow>
        (img (niiDIR S) vx vy vz (i * 4 + 1),
         img (niiDIR S) vx vy vz (i * 4 + 2),
         img (niiDIR S) vx vy vz (i * 4 + 3)))"

definition dotProd :: "Vec3Df \<Rightarrow> Vec3Df \<Rightarrow> real" where
  "dotProd a b = (case a of (ax, ay, az) \<Rightarrow> case b of (bx, by, bz) \<Rightarrow>
     ax * bx + ay * by + az * bz)"

text \<open>
  One iteration of \<open>for(i=0; i<3; i++)\<close>: the loop state is \<open>(idx, max)\<close>.
\<close>

definition pickStep :: "streamline \<Rightarrow> Vec3Di \<Rightarrow> Vec3Df \<Rightarrow> int \<times> real \<Rightarrow> int \<Rightarrow> int \<times> real" where
  "pickStep S voxel vec st i =
     (case st of (idx, mx) \<Rightarrow>
        if volFrac S voxel i \<le> volFracThr (CONFIG S) then (idx, mx)
        else
          let DOT = dotProd vec (candDir S voxel i);
              DOTabs = \<bar>DOT\<bar>
          in if DOTabs > ANGLE_thr S \<and> DOTabs > mx
             then (if DOT > 0 then i + 1 else - (i + 1), DOTabs)
             else (idx, mx))"

text \<open>The value of \<open>idx\<close> when the loop ends (\<open>idx = max = 0\<close> before it).\<close>

definition pickIdx :: "streamline \<Rightarrow> Vec3Di \<Rightarrow> Vec3Df \<Rightarrow> int" where
  "pickIdx S voxel vec = fst (foldl (pickStep S voxel vec) (0, 0) [0, 1, 2])"

text \<open>
  \<open>pickBestDir\<close> returns false and leaves \<open>vec\<close> alone (\<open>None\<close>), or returns true with
  \<open>vec\<close> overwritten (\<open>Some\<close> of the new vector).
\<close>

definition pickBestDir :: "streamline \<Rightarrow> Vec3Di \<Rightarrow> Vec3Df \<Rightarrow> Vec3Df option" where
  "pickBestDir S voxel vec =
     (let idx = pickIdx S voxel vec
      in if idx = 0 then None
         else
           let i = (if idx < 0 then - 1 else 1 :: int);
               idx' = (\<bar>idx\<bar> - 1) * 4
           in case voxel of (vx, vy, vz) \<Rightarrow>
                Some (of_int i * img (niiDIR S) vx vy vz (idx' + 1),
                      of_int i * img (niiDIR S) vx vy vz (idx' + 2),
                      of_int i * img (niiDIR S) vx vy vz (idx' + 3)))"

section \<open>Fiber growth (streamline::trackFromXYZ)\<close>

text \<open>
  \<open>floor(COORD / pixdim)\<close> on the three axes: the voxel of a grid that holds a physical
  point.  Axis \<open>k\<close> of a NIFTI header is \<open>pixdim[k]\<close>, \<open>k = 1, 2, 3\<close>.
\<close>

definition voxelOf :: "(nat \<Rightarrow> real) \<Rightarrow> Vec3Df \<Rightarrow> Vec3Di" where
  "voxelOf pd c = (case c of (cx, cy, cz) \<Rightarrow> (\<lfloor>cx / pd 1\<rfloor>, \<lfloor>cy / pd 2\<rfloor>, \<lfloor>cz / pd 3\<rfloor>))"

text \<open>
  The containment test that the source writes out twice (for the seed point, and at the
  head of the stepping loop): true when the point is outside the white-matter mask.
\<close>

definition outsideWM :: "streamline \<Rightarrow> Vec3Df \<Rightarrow> bool" where
  "outsideWM S c =
     (case voxelOf (hdr_pixdim (niiMASK S)) c of (wx, wy, wz) \<Rightarrow>
        wx < 0 \<or> wx > hdr_dim (niiMASK S) 1 - 1 \<or>
        wy < 0 \<or> wy > hdr_dim (niiMASK S) 2 - 1 \<or>
        wz < 0 \<or> wz > hdr_dim (niiMASK S) 3 - 1 \<or>
        img (niiMASK S) wx wy wz = 0)"

definition advance :: "Vec3Df \<Rightarrow> real \<Rightarrow> Vec3Df \<Rightarrow> Vec3Df" where
  "advance c s d = (case c of (cx, cy, cz) \<Rightarrow> case d of (dx, dy, dz) \<Rightarrow>
     (cx + s * dx, cy + s * dy, cz + s * dz))"

definition vecDiff :: "Vec3Df \<Rightarrow> Vec3Df \<Rightarrow> Vec3Df" where
  "vecDiff a b = (case a of (ax, ay, az) \<Rightarrow> case b of (bx, by, bz) \<Rightarrow>
     (ax - bx, ay - by, az - bz))"

text \<open>
  \<open>FIBERs(found)\<close> is a Blitz \<open>Array<float,2>\<close> that \<open>setConfig\<close> resized to
  \<open>3 x maxLength\<close>.  Blitz keeps such an array row by row in one block of floats and
  checks no index: element \<open>(r, c)\<close> is the float at offset \<open>r * maxLength + c\<close> from the
  start of the block.  The model keeps the floats by their offset, those behind the
  \<open>3 * maxLength\<close> of the array included, so that a write to a column at or beyond
  \<open>maxLength\<close> lands where the program puts it: on an element of the next row, or
  behind the block.  The floats behind the block belong to no other object of the model;
  what the program keeps there is not part of it.  For \<open>2 \<le> maxLength\<close> every column
  the tracker touches is below \<open>maxLength\<close> and the columns are the points of the
  fiber (\<open>colsOf_putCol\<close>, \<open>growFiber_points\<close>).

  \<open>putCol\<close> is the three assignments \<open>FIBERs(found)(0,c) = x; (1,c) = y; (2,c) = z\<close> in
  this order, \<open>getCol\<close> the three reads of column \<open>c\<close>.
\<close>

type_synonym FIBER = "int \<Rightarrow> real"

definition putCol :: "int \<Rightarrow> FIBER \<Rightarrow> int \<Rightarrow> Vec3Df \<Rightarrow> FIBER" where
  "putCol n buf c p =
     (case p of (px, py, pz) \<Rightarrow> buf(0 * n + c := px, 1 * n + c := py, 2 * n + c := pz))"

definition getCol :: "int \<Rightarrow> FIBER \<Rightarrow> int \<Rightarrow> Vec3Df" where
  "getCol n buf c = (buf (0 * n + c), buf (1 * n + c), buf (2 * n + c))"

text \<open>
  The columns \<open>0 .. step-1\<close> of the buffer: the points that \<open>doTracking\<close> and
  \<open>TrackVis::append\<close> read from \<open>FIBERs(i)\<close> with \<open>LENGTHs(i) = step\<close>.
\<close>

definition colsOf :: "int \<Rightarrow> FIBER \<Rightarrow> int \<Rightarrow> Vec3Df list" where
  "colsOf n buf step = map (getCol n buf) [0..step - 1]"

text \<open>
  \<open>tmp = FIBERs(found)(Range(0,2),Range(0,step-1)); tmp.reverseSelf(1);
  FIBERs(found)(Range(0,2),Range(0,step-1)) = tmp\<close>: \<open>tmp\<close> is a copy of the columns
  \<open>0 .. step-1\<close>, so every value is read from the buffer as it was, and the assignment
  back goes through the elements row by row.
\<close>

definition reverseCols :: "int \<Rightarrow> FIBER \<Rightarrow> int \<Rightarrow> FIBER" where
  "reverseCols n buf step =
     foldl (\<lambda>b rc. case rc of (r, c) \<Rightarrow> b(r * n + c := buf (r * n + (step - 1 - c)))) buf
       (concat (map (\<lambda>r. map (\<lambda>c. (r, c)) [0..step - 1]) [0, 1, 2]))"

text \<open>
  \<open>while( step<CONFIG->maxLength )\<close> with its two \<open>break\<close>s.  The loop state is
  \<open>(COORD, dir, FIBERs(found), step)\<close>.
\<close>

function whileLoop ::
  "streamline \<Rightarrow> Vec3Df \<Rightarrow> Vec3Df \<Rightarrow> FIBER \<Rightarrow> int \<Rightarrow> Vec3Df \<times> Vec3Df \<times> FIBER \<times> int" where
  "whileLoop S COORD dir buf step =
     (if step < maxLength (CONFIG S) then
        if outsideWM S COORD then (COORD, dir, buf, step)
        else
          (case pickBestDir S (voxelOf (hdr_pixdim (niiDIR S)) COORD) dir of
             None \<Rightarrow> (COORD, dir, buf, step)
           | Some dir' \<Rightarrow>
               let COORD' = advance COORD (stepSize (CONFIG S)) dir'
               in whileLoop S COORD' dir' (putCol (maxLength (CONFIG S)) buf step COORD') (step + 1))
      else (COORD, dir, buf, step))"
  by pat_completeness auto
termination
  by (relation "measure (\<lambda>(S, COORD, dir, buf, step). nat (maxLength (CONFIG S) - step))") auto

declare whileLoop.simps [simp del]

text \<open>
  One round of \<open>for(semi_step=0; semi_step<2; semi_step++)\<close>, on the state
  \<open>(COORD, FIBERs(found), step)\<close>: the travel direction is taken from the columns
  \<open>step-1\<close> and \<open>step-2\<close>, the stepping loop runs, and after the first round \<open>COORD\<close> is
  set back to column 0 and the columns \<open>0 .. step-1\<close> are reversed.
\<close>

definition semiStep :: "streamline \<Rightarrow> Vec3Df \<times> FIBER \<times> int \<Rightarrow> int \<Rightarrow> Vec3Df \<times> FIBER \<times> int" where
  "semiStep S st semi_step =
     (case st of (COORD, buf, step) \<Rightarrow>
        let n = maxLength (CONFIG S);
            dir = Normalize (vecDiff (getCol n buf (step - 1)) (getCol n buf (step - 2)))
        in case whileLoop S COORD dir buf step of (COORD', dir', buf', step') \<Rightarrow>
             if semi_step = 0 then (getCol n buf' 0, reverseCols n buf' step', step')
             else (COORD', buf', step'))"

text \<open>
  The body of the \<open>seedDir\<close> loop after the volume-fraction gate: the seed point is
  stored in column 0 and the first advance in column 1, \<open>COORD\<close> is read back from
  column 1, \<open>step = 2\<close>, both rounds run, and \<open>LENGTHs(found) = step\<close>.  The result is
  the pair of the points that columns \<open>0 .. step-1\<close> of \<open>FIBERs(found)\<close> hold at the end
  and of \<open>LENGTHs(found)\<close>.  Every float the tracker reads from the buffer it has
  written before during the same fiber, so what an earlier fiber left in the buffer
  plays no part and the model starts from zeros.
\<close>

definition growFiber :: "streamline \<Rightarrow> Vec3Df \<Rightarrow> Vec3Df \<Rightarrow> Vec3Df list \<times> int" where
  "growFiber S COORD_seed dir =
     (let n = maxLength (CONFIG S);
          buf0 = putCol n (putCol n (\<lambda>_. 0) 0 COORD_seed) 1
                   (advance COORD_seed (stepSize (CONFIG S)) dir)
      in case foldl (semiStep S) (getCol n buf0 1, buf0, 2) [0, 1] of
           (COORD, buf, step) \<Rightarrow> (colsOf n buf step, step))"

text \<open>
  One iteration of \<open>for(seedDir=0; seedDir<3; seedDir++)\<close>.  The accumulator lists the
  pairs \<open>(FIBERs(i), LENGTHs(i))\<close> for \<open>i < found\<close>, so \<open>found\<close> is its length.
\<close>

definition seedDirStep ::
  "streamline \<Rightarrow> Vec3Di \<Rightarrow> Vec3Df \<Rightarrow> (Vec3Df list \<times> int) list \<Rightarrow> int \<Rightarrow> (Vec3Df list \<times> int) list" where
  "seedDirStep S xyz COORD_seed acc seedDir =
     (if volFrac S xyz seedDir \<le> volFracThr (CONFIG S) then acc
      else acc @ [growFiber S COORD_seed (candDir S xyz seedDir)])"

text \<open>
  The random source \<open>uniformGenerator\<close> is the sequence \<open>rnd\<close> of the values it will
  return, with the number \<open>k\<close> of values drawn so far; a seed point draws three.
\<close>

definition seedPoint :: "streamline \<Rightarrow> (nat \<Rightarrow> real) \<Rightarrow> nat \<Rightarrow> Vec3Di \<Rightarrow> Vec3Df" where
  "seedPoint S rnd k xyz =
     (case xyz of (x, y, z) \<Rightarrow>
        ((of_int x + rnd k) * hdr_pixdim (niiDIR S) 1,
         (of_int y + rnd (k + 1)) * hdr_pixdim (niiDIR S) 2,
         (of_int z + rnd (k + 2)) * hdr_pixdim (niiDIR S) 3))"

text \<open>
  \<open>for(int seedNum=0; seedNum<CONFIG->seeds; seedNum++)\<close>: a seed point outside the white
  matter leaves the loop (\<open>break\<close>).
\<close>

function seedLoop ::
  "streamline \<Rightarrow> (nat \<Rightarrow> real) \<Rightarrow> Vec3Di \<Rightarrow> int \<Rightarrow> nat \<Rightarrow> (Vec3Df list \<times> int) list
     \<Rightarrow> (Vec3Df list \<times> int) list \<times> nat" where
  "seedLoop S rnd xyz seedNum k acc =
     (if seedNum < seeds (CONFIG S) then
        let COORD_seed = seedPoint S rnd k xyz
        in if outsideWM S COORD_seed then (acc, k + 3)
           else seedLoop S rnd xyz (seedNum + 1) (k + 3)
                  (foldl (seedDirStep S xyz COORD_seed) acc [0, 1, 2])
      else (acc, k))"
  by pat_completeness auto
termination
  by (relation "measure (\<lambda>(S, rnd, xyz, seedNum, k, acc). nat (seeds (CONFIG S) - seedNum))") auto

declare seedLoop.simps [simp del]

text \<open>
  \<open>trackFromXYZ\<close> returns \<open>found\<close> and leaves the fibers in \<open>FIBERs\<close> and \<open>LENGTHs\<close>: the
  model returns the list of pairs, and the state of the random source.
\<close>

definition trackFromXYZ ::
  "streamline \<Rightarrow> (nat \<Rightarrow> real) \<Rightarrow> nat \<Rightarrow> Vec3Di \<Rightarrow> (Vec3Df list \<times> int) list \<times> nat" where
  "trackFromXYZ S rnd k xyz =
     (case xyz of (x, y, z) \<Rightarrow>
        if x < 0 \<or> x > hdr_dim (niiDIR S) 1 - 1 \<or>
           y < 0 \<or> y > hdr_dim (niiDIR S) 2 - 1 \<or>
           z < 0 \<or> z > hdr_dim (niiDIR S) 3 - 1
        then ([], k)
        else seedLoop S rnd xyz 0 k [])"

section \<open>Writing a fiber (TrackVis::append)\<close>

definition TRACKVIS_SAVE_ALL :: int where "TRACKVIS_SAVE_ALL = 0"
definition TRACKVIS_SAVE_HALF :: int where "TRACKVIS_SAVE_HALF = 1"
definition TRACKVIS_SAVE_UNIQUE :: int where "TRACKVIS_SAVE_UNIQUE = 2"
definition TRACKVIS_VOXEL_OFFSET :: real where "TRACKVIS_VOXEL_OFFSET = 0"

text \<open>The private field \<open>maxSteps\<close>, set to 2000 by the constructor.\<close>

definition maxSteps :: int where "maxSteps = 2000"

text \<open>
  The three assignments \<open>tmp[pos++] = (*fiber)(k,i) + TRACKVIS_VOXEL_OFFSET\<close>,
  \<open>k = 0, 1, 2\<close>, on the pair \<open>(pos, tmp[0..pos))\<close>.
\<close>

definition putPoint :: "int \<times> real list \<Rightarrow> Vec3Df \<Rightarrow> int \<times> real list" where
  "putPoint st p =
     (case st of (pos, tmp) \<Rightarrow> case p of (px, py, pz) \<Rightarrow>
        (pos + 3,
         tmp @ [px + TRACKVIS_VOXEL_OFFSET, py + TRACKVIS_VOXEL_OFFSET, pz + TRACKVIS_VOXEL_OFFSET]))"

text \<open>
  \<open>int X = floor( (*fiber)(0,i) )\<close>: the float that \<open>floor\<close> returns is converted to
  \<open>int\<close>.  C++ defines the conversion only for a value in the range of \<open>int\<close>; for a
  value outside it the conversion instruction of the x86-64 machines the program is built
  for yields \<open>-2^31\<close>, and the model takes this value.
\<close>

definition floor_to_int :: "real \<Rightarrow> int" where
  "floor_to_int r = (if - (2 ^ 31) \<le> \<lfloor>r\<rfloor> \<and> \<lfloor>r\<rfloor> < 2 ^ 31 then \<lfloor>r\<rfloor> else - (2 ^ 31))"

text \<open>
  One iteration of the loop of the branch \<open>TRACKVIS_SAVE_UNIQUE\<close> at the point
  \<open>(*fiber)(.,i)\<close>; the state is \<open>((pos, tmp), (oldX, oldY, oldZ), numSaved)\<close>.
\<close>

definition uniqueStep ::
  "(int \<times> real list) \<times> Vec3Di \<times> int \<Rightarrow> Vec3Df \<Rightarrow> (int \<times> real list) \<times> Vec3Di \<times> int" where
  "uniqueStep st p =
     (case st of (buf, (oldX, oldY, oldZ), numSaved) \<Rightarrow> case p of (px, py, pz) \<Rightarrow>
        let X = floor_to_int px; Y = floor_to_int py; Z = floor_to_int pz
        in if fst buf = 0 \<or> X \<noteq> oldX \<or> Y \<noteq> oldY \<or> Z \<noteq> oldZ
           then (putPoint buf p, (X, Y, Z), numSaved + 1)
           else (buf, (oldX, oldY, oldZ), numSaved))"

text \<open>The loop \<open>for(int i=numPoints-1; i>0; i-=2)\<close> of the branch \<open>TRACKVIS_SAVE_HALF\<close>.\<close>

function halfLoop :: "Vec3Df list \<Rightarrow> int \<Rightarrow> int \<times> real list \<Rightarrow> int \<times> real list" where
  "halfLoop fiber i buf =
     (if i > 0 then halfLoop fiber (i - 2) (putPoint buf (fiber ! nat i)) else buf)"
  by pat_completeness auto
termination
  by (relation "measure (\<lambda>(fiber, i, buf). nat i)") auto

declare halfLoop.simps [simp del]

text \<open>
  \<open>append\<close> hands \<open>numSaved\<close> and then \<open>tmp[0..pos)\<close> to \<open>fwrite\<close>; the model returns this
  pair, or \<open>None\<close> when the fiber is longer than \<open>maxSteps\<close> and nothing is written.  The
  points read are \<open>(*fiber)(.,i)\<close> for \<open>i < numPoints\<close>.
\<close>

type_synonym trk_record = "int \<times> real list"

definition TrackVis_append :: "Vec3Df list \<Rightarrow> int \<Rightarrow> int \<Rightarrow> trk_record option" where
  "TrackVis_append fiber numPoints saveMethod =
     (if numPoints > maxSteps then None
      else if saveMethod = TRACKVIS_SAVE_HALF then
        (let numSaved = \<lceil>real_of_int (numPoints - 1) / 2\<rceil> + 1;
             buf = putPoint (halfLoop fiber (numPoints - 1) (0, [])) (fiber ! 0)
         in Some (numSaved, snd buf))
      else if saveMethod = TRACKVIS_SAVE_UNIQUE then
        (case foldl uniqueStep ((0, []), (0, 0, 0), 0)
                (map (\<lambda>i. fiber ! i) [0..<nat numPoints]) of
           (buf, old, numSaved) \<Rightarrow> Some (numSaved, snd buf))
      else
        (let numSaved = numPoints;
             buf = foldl putPoint (0, []) (map (\<lambda>i. fiber ! i) [0..<nat numSaved])
         in Some (numSaved, snd buf)))"

section \<open>The orchestrator (streamline::doTracking)\<close>

text \<open>
  Single-precision arithmetic.  \<open>float32 x\<close> is the float nearest to the real \<open>x\<close>, a tie
  going to the float with the even significand, which is the rounding of every float
  operation of the program: a float has 24 significant bits, and below \<open>2^-126\<close> the
  floats are \<open>2^-149\<close> apart.  Infinities and NaN are not modelled: a result beyond the
  largest float stays at its rounded value.
\<close>

definition round_even :: "real \<Rightarrow> int" where
  "round_even y =
     (let f = \<lfloor>y\<rfloor>; d = y - of_int f
      in if d < 1 / 2 then f else if 1 / 2 < d then f + 1 else if even f then f else f + 1)"

definition float32 :: "real \<Rightarrow> real" where
  "float32 x =
     (if x = 0 then 0
      else let e = max (\<lfloor>log 2 \<bar>x\<bar>\<rfloor> - 23) (- 149)
           in of_int (round_even (x / 2 powr of_int e)) * 2 powr of_int e)"

text \<open>
  The global filter
  \<open>(LENGTHs(i)-1)*CONFIG->stepSize*niiDIR->hdr->pixdim[1] >= CONFIG->minLength\<close>.
  \<open>LENGTHs\<close> holds \<open>unsigned int\<close>, so \<open>LENGTHs(i)-1\<close> is computed modulo \<open>2^32\<close>; it is
  converted to float for the product with the float \<open>stepSize\<close>, each of the two
  products is a float, and the \<open>int\<close> \<open>minLength\<close> is converted to float for the
  comparison.
\<close>

definition lengthFilter :: "streamline \<Rightarrow> int \<Rightarrow> bool" where
  "lengthFilter S len =
     (float32 (float32 (float32 (real_of_int ((len - 1) mod 2 ^ 32)) * stepSize (CONFIG S))
                 * hdr_pixdim (niiDIR S) 1)
        \<ge> float32 (real_of_int (minLength (CONFIG S))))"

text \<open>
  One iteration of \<open>for(int i=0; i<foundAtXYZ; i++)\<close> on the state
  \<open>(records written to the file, tot_fibers)\<close>.
\<close>

definition saveStep ::
  "streamline \<Rightarrow> trk_record list \<times> int \<Rightarrow> Vec3Df list \<times> int \<Rightarrow> trk_record list \<times> int" where
  "saveStep S st f =
     (case st of (recs, tot_fibers) \<Rightarrow> case f of (fiber, len) \<Rightarrow>
        if lengthFilter S len
        then (case TrackVis_append fiber len TRACKVIS_SAVE_UNIQUE of
                None \<Rightarrow> (recs, tot_fibers + 1)
              | Some r \<Rightarrow> (recs @ [r], tot_fibers + 1))
        else (recs, tot_fibers))"

text \<open>The voxels in the order of the three nested loops: z outermost, x innermost.\<close>

definition rasterVoxels :: "streamline \<Rightarrow> Vec3Di list" where
  "rasterVoxels S =
     concat (map (\<lambda>z. concat (map (\<lambda>y. map (\<lambda>x. (x, y, z))
         [0..hdr_dim (niiDIR S) 1 - 1]) [0..hdr_dim (niiDIR S) 2 - 1])) [0..hdr_dim (niiDIR S) 3 - 1])"

text \<open>
  The body of the voxel loop on the state \<open>(records, tot_fibers, values drawn)\<close>.
\<close>

definition voxelStep ::
  "streamline \<Rightarrow> (nat \<Rightarrow> real) \<Rightarrow> trk_record list \<times> int \<times> nat \<Rightarrow> Vec3Di
     \<Rightarrow> trk_record list \<times> int \<times> nat" where
  "voxelStep S rnd st xyz =
     (case st of (recs, tot_fibers, k) \<Rightarrow> case xyz of (x, y, z) \<Rightarrow>
        if (case niiSEED S of None \<Rightarrow> False | Some seed \<Rightarrow> img seed x y z = 0)
        then (recs, tot_fibers, k)
        else
          (case trackFromXYZ S rnd k xyz of (found, k') \<Rightarrow>
             case foldl (saveStep S) (recs, tot_fibers) found of
               (recs', tot_fibers') \<Rightarrow> (recs', tot_fibers', k')))"

text \<open>
  \<open>doTracking\<close> for a tracker whose configuration and white-matter mask are set (the
  guard \<open>!CONFIG || !niiMASK\<close> of the source is for a tracker that has neither).  The
  result is the list of fiber records appended to the file, the total handed to
  \<open>updateTotal\<close> and returned, and the state of the random source.  The header of the
  file is the subject of the section on \<open>TrackVis::create\<close>.
\<close>

definition doTracking :: "streamline \<Rightarrow> (nat \<Rightarrow> real) \<Rightarrow> nat \<Rightarrow> trk_record list \<times> int \<times> nat" where
  "doTracking S rnd k = foldl (voxelStep S rnd) ([], 0, k) (rasterVoxels S)"

section \<open>Configuring the tracker (setConfig, setWhiteMatterMask, setSeedMask)\<close>

text \<open>
  What the program prints before it stops or goes on, one constructor for each message of
  streamline.h and of the parameter checks of main.cxx.
\<close>

datatype diagnostic =
    WARNING_FOV_mismatch
  | ERROR_seed_geometry
  | dir_not_set
  | wm_not_set
  | out_not_set
  | vf_range
  | stepSize_range
  | maxLength_range
  | maxAngle_range
  | seeds_range

text \<open>
  \<open>setConfig\<close> stores the configuration and the cosine of the angle threshold.  It also
  resizes \<open>FIBERs\<close> and \<open>LENGTHs\<close> to \<open>3 * seeds\<close> entries and every fiber buffer to
  \<open>3 x maxLength\<close>; the buffers are results of \<open>trackFromXYZ\<close> in this model and not a
  part of the tracker.
\<close>

definition setConfig :: "streamline \<Rightarrow> tracking_config \<Rightarrow> streamline" where
  "setConfig S cfg =
     S\<lparr>CONFIG := cfg, ANGLE_thr := cos (maxAngle cfg / 180.0 * 3.14159265)\<rparr>"

text \<open>
  \<open>setWhiteMatterMask\<close> prints a warning to \<open>cout\<close> when the fields of view differ, and
  stores the mask in either case; the result is the output and the new tracker.
\<close>

definition setWhiteMatterMask ::
  "streamline \<Rightarrow> UINT8_image NIFTI \<Rightarrow> diagnostic list \<times> streamline" where
  "setWhiteMatterMask S nii =
     (if of_int (hdr_dim nii 1) * hdr_pixdim nii 1
            \<noteq> of_int (hdr_dim (niiDIR S) 1) * hdr_pixdim (niiDIR S) 1 \<or>
         of_int (hdr_dim nii 2) * hdr_pixdim nii 2
            \<noteq> of_int (hdr_dim (niiDIR S) 2) * hdr_pixdim (niiDIR S) 2 \<or>
         of_int (hdr_dim nii 3) * hdr_pixdim nii 3
            \<noteq> of_int (hdr_dim (niiDIR S) 3) * hdr_pixdim (niiDIR S) 3
      then ([WARNING_FOV_mismatch], S\<lparr>niiMASK := nii\<rparr>)
      else ([], S\<lparr>niiMASK := nii\<rparr>))"

text \<open>
  \<open>setSeedMask\<close>: \<open>Inl (message on cerr, status)\<close> is \<open>exit(status)\<close>, \<open>Inr\<close> the tracker
  after a normal return.
\<close>

definition setSeedMask ::
  "streamline \<Rightarrow> UINT8_image NIFTI option \<Rightarrow> (diagnostic \<times> int) + streamline" where
  "setSeedMask S nii_opt =
     (case nii_opt of
        None \<Rightarrow> Inr (S\<lparr>niiSEED := None\<rparr>)
      | Some nii \<Rightarrow>
          if hdr_pixdim nii 1 \<noteq> hdr_pixdim (niiDIR S) 1 \<or>
             hdr_pixdim nii 2 \<noteq> hdr_pixdim (niiDIR S) 2 \<or>
             hdr_pixdim nii 3 \<noteq> hdr_pixdim (niiDIR S) 3 \<or>
             hdr_dim nii 1 \<noteq> hdr_dim (niiDIR S) 1 \<or>
             hdr_dim nii 2 \<noteq> hdr_dim (niiDIR S) 2 \<or>
             hdr_dim nii 3 \<noteq> hdr_dim (niiDIR S) 3
          then Inl (ERROR_seed_geometry, 1)
          else Inr (S\<lparr>niiSEED := Some nii\<rparr>))"

section \<open>Parameter checks of the program (DTB_streamline/main.cxx)\<close>

text \<open>
  The command line after parsing: which of the options \<open>dir\<close>, \<open>seed\<close>, \<open>wm\<close>, \<open>out\<close> were
  given (\<open>vm.count\<close>), and the configuration that the parser filled.
\<close>

record options =
  has_dir :: bool
  has_seed :: bool
  has_wm :: bool
  has_out :: bool
  parsed :: tracking_config

text \<open>
  The block of \<open>main\<close> from \<open>Check INOUT PARAMETERS\<close> to the last range check: each
  failing test prints its message to \<open>cerr\<close> and returns 1 (\<open>Inl\<close>); otherwise \<open>main\<close>
  goes on to print the parameters, read the datasets and track (\<open>Inr\<close>).
\<close>

definition main_checks :: "options \<Rightarrow> (diagnostic \<times> int) + tracking_config" where
  "main_checks opts =
     (let cfg = parsed opts in
      if \<not> has_dir opts then Inl (dir_not_set, 1)
      else if \<not> has_wm opts then Inl (wm_not_set, 1)
      else if \<not> has_out opts then Inl (out_not_set, 1)
      else if volFracThr cfg < 0 \<or> volFracThr cfg > 1 then Inl (vf_range, 1)
      else if stepSize cfg \<le> 0 \<or> stepSize cfg > 4 then Inl (stepSize_range, 1)
      else if maxLength cfg < 1 \<or> maxLength cfg > 1000 then Inl (maxLength_range, 1)
      else if maxAngle cfg < 1 \<or> maxAngle cfg > 90 then Inl (maxAngle_range, 1)
      else if seeds cfg < 1 \<or> seeds cfg > 64 then Inl (seeds_range, 1)
      else Inr cfg)"

section \<open>The header of a TrackVis file (TrackVis.h)\<close>

text \<open>
  \<open>create\<close> and \<open>open\<close> move the header between memory and the file as the raw bytes of
  \<open>struct TrackVis_header\<close>, and \<open>updateTotal\<close> patches the file at a byte offset, so the
  header is modelled as the memory of the struct: a list of bytes, with the fields at the
  offsets that the declaration gives them.  A \<open>short\<close> is a \<open>16 word\<close>, an \<open>int\<close> a
  \<open>32 word\<close>, and a \<open>float\<close> is the \<open>32 word\<close> of its IEEE 754 bits; multi-byte values are
  stored least significant byte first.
\<close>

type_synonym byte = "8 word"

datatype ctype = C_char | C_uchar | C_short | C_int | C_float

fun sizeof :: "ctype \<Rightarrow> nat" where
  "sizeof C_char = 1"
| "sizeof C_uchar = 1"
| "sizeof C_short = 2"
| "sizeof C_int = 4"
| "sizeof C_float = 4"

datatype hdr_field =
    f_id_string | f_dim | f_voxel_size | f_origin | f_n_scalars | f_scalar_name
  | f_n_properties | f_property_name | f_reserved | f_voxel_order | f_pad2
  | f_image_orientation_patient | f_pad1 | f_invert_x | f_invert_y | f_invert_z
  | f_swap_xy | f_swap_yz | f_swap_zx | f_n_count | f_version | f_hdr_size

text \<open>The declaration of the struct: element type and number of elements of each field.\<close>

fun field_type :: "hdr_field \<Rightarrow> ctype" where
  "field_type f_id_string = C_char"
| "field_type f_dim = C_short"
| "field_type f_voxel_size = C_float"
| "field_type f_origin = C_float"
| "field_type f_n_scalars = C_short"
| "field_type f_scalar_name = C_char"
| "field_type f_n_properties = C_short"
| "field_type f_property_name = C_char"
| "field_type f_reserved = C_char"
| "field_type f_voxel_order = C_char"
| "field_type f_pad2 = C_char"
| "field_type f_image_orientation_patient = C_float"
| "field_type f_pad1 = C_char"
| "field_type f_invert_x = C_uchar"
| "field_type f_invert_y = C_uchar"
| "field_type f_invert_z = C_uchar"
| "field_type f_swap_xy = C_uchar"
| "field_type f_swap_yz = C_uchar"
| "field_type f_swap_zx = C_uchar"
| "field_type f_n_count = C_int"
| "field_type f_version = C_int"
| "field_type f_hdr_size = C_int"

fun field_count :: "hdr_field \<Rightarrow> nat" where
  "field_count f_id_string = 6"
| "field_count f_dim = 3"
| "field_count f_voxel_size = 3"
| "field_count f_origin = 3"
| "field_count f_scalar_name = 10 * 20"
| "field_count f_property_name = 10 * 20"
| "field_count f_reserved = 508"
| "field_count f_voxel_order = 4"
| "field_count f_pad2 = 4"
| "field_count f_image_orientation_patient = 6"
| "field_count f_pad1 = 2"
| "field_count f = 1"

definition TrackVis_header_fields :: "hdr_field list" where
  "TrackVis_header_fields =
     [f_id_string, f_dim, f_voxel_size, f_origin, f_n_scalars, f_scalar_name,
      f_n_properties, f_property_name, f_reserved, f_voxel_order, f_pad2,
      f_image_orientation_patient, f_pad1, f_invert_x, f_invert_y, f_invert_z,
      f_swap_xy, f_swap_yz, f_swap_zx, f_n_count, f_version, f_hdr_size]"

text \<open>
  The layout of a struct: each field starts at the next multiple of the size of its
  element type, in the order of the declaration.
\<close>

definition align_up :: "nat \<Rightarrow> nat \<Rightarrow> nat" where
  "align_up off a = ((off + a - 1) div a) * a"

fun offset_in :: "nat \<Rightarrow> hdr_field list \<Rightarrow> hdr_field \<Rightarrow> nat" where
  "offset_in off [] f = off"
| "offset_in off (g # gs) f =
     (let start = align_up off (sizeof (field_type g))
      in if g = f then start
         else offset_in (start + sizeof (field_type g) * field_count g) gs f)"

definition offsetof :: "hdr_field \<Rightarrow> nat" where
  "offsetof f = offset_in 0 TrackVis_header_fields f"

fun end_of :: "nat \<Rightarrow> hdr_field list \<Rightarrow> nat" where
  "end_of off [] = off"
| "end_of off (g # gs) =
     end_of (align_up off (sizeof (field_type g)) + sizeof (field_type g) * field_count g) gs"

definition sizeof_TrackVis_header :: nat where
  "sizeof_TrackVis_header = align_up (end_of 0 TrackVis_header_fields) 4"

text \<open>Values as bytes and back.\<close>

definition bytes16 :: "16 word \<Rightarrow> byte list" where
  "bytes16 w = [ucast w, ucast (drop_bit 8 w)]"

definition bytes32 :: "32 word \<Rightarrow> byte list" where
  "bytes32 w = [ucast w, ucast (drop_bit 8 w), ucast (drop_bit 16 w), ucast (drop_bit 24 w)]"

definition word16 :: "byte list \<Rightarrow> 16 word" where
  "word16 bs = ucast (bs ! 0) OR push_bit 8 (ucast (bs ! 1))"

definition word32 :: "byte list \<Rightarrow> 32 word" where
  "word32 bs = ucast (bs ! 0) OR push_bit 8 (ucast (bs ! 1)) OR push_bit 16 (ucast (bs ! 2))
      OR push_bit 24 (ucast (bs ! 3))"

text \<open>
  Writing bytes at an offset of a byte sequence (a store into memory, or \<open>fwrite\<close> at a
  file position: bytes beyond the end extend the sequence, a gap before them is zero),
  and reading \<open>n\<close> bytes at an offset.
\<close>

definition store :: "nat \<Rightarrow> byte list \<Rightarrow> byte list \<Rightarrow> byte list" where
  "store off bs mem =
     take off (mem @ replicate (off - length mem) 0) @ bs @ drop (off + length bs) mem"

definition load :: "nat \<Rightarrow> nat \<Rightarrow> byte list \<Rightarrow> byte list" where
  "load off n mem = take n (drop off mem)"

text \<open>Element \<open>i\<close> of a field of the header, by type.\<close>

definition set_short :: "hdr_field \<Rightarrow> nat \<Rightarrow> 16 word \<Rightarrow> byte list \<Rightarrow> byte list" where
  "set_short f i v h = store (offsetof f + 2 * i) (bytes16 v) h"

definition set_word :: "hdr_field \<Rightarrow> nat \<Rightarrow> 32 word \<Rightarrow> byte list \<Rightarrow> byte list" where
  "set_word f i v h = store (offsetof f + 4 * i) (bytes32 v) h"

definition set_chars :: "hdr_field \<Rightarrow> byte list \<Rightarrow> byte list \<Rightarrow> byte list" where
  "set_chars f cs h = store (offsetof f) cs h"

definition get_short :: "hdr_field \<Rightarrow> nat \<Rightarrow> byte list \<Rightarrow> 16 word" where
  "get_short f i h = word16 (load (offsetof f + 2 * i) 2 h)"

definition get_word :: "hdr_field \<Rightarrow> nat \<Rightarrow> byte list \<Rightarrow> 32 word" where
  "get_word f i h = word32 (load (offsetof f + 4 * i) 4 h)"

text \<open>
  The comparison \<open>pixdim[i] <= 0\<close> on the bits of a \<open>float\<close>: false for a NaN, true for
  a zero of either sign and for every other value with the sign bit set.
\<close>

definition float_isnan :: "32 word \<Rightarrow> bool" where
  "float_isnan w = (w AND 0x7F800000 = 0x7F800000 \<and> w AND 0x007FFFFF \<noteq> 0)"

definition float_le_zero :: "32 word \<Rightarrow> bool" where
  "float_le_zero w = (\<not> float_isnan w \<and> (bit w 31 \<or> w AND 0x7FFFFFFF = 0))"

text \<open>The bits of the constants \<open>0\<close> and \<open>1.0\<close>.\<close>

definition float_0 :: "32 word" where "float_0 = 0"
definition float_1 :: "32 word" where "float_1 = 0x3F800000"

text \<open>
  An open file: its contents and the position of the next read or write.  A TrackVis
  object: the memory of \<open>hdr\<close> and the file pointer (\<open>None\<close> is NULL).  The constructor
  leaves \<open>hdr\<close> as it finds it, so the object is made from whatever 1000 bytes are there.
\<close>

record FILE =
  contents :: "byte list"
  fpos :: nat

record TrackVis =
  hdr :: "byte list"
  fp :: "FILE option"

definition TrackVis_new :: "byte list \<Rightarrow> TrackVis" where
  "TrackVis_new garbage =
     \<lparr>hdr = take sizeof_TrackVis_header (garbage @ replicate sizeof_TrackVis_header 0),
      fp = None\<rparr>"

definition fwrite :: "byte list \<Rightarrow> FILE \<Rightarrow> FILE" where
  "fwrite bs f = \<lparr>contents = store (fpos f) bs (contents f), fpos = fpos f + length bs\<rparr>"

definition fseek_set :: "nat \<Rightarrow> FILE \<Rightarrow> FILE" where
  "fseek_set off f = f\<lparr>fpos := off\<rparr>"

text \<open>
  The loop \<open>for(int i=0; i<3; i++)\<close> of \<open>create\<close>, which returns 0 from inside at the first
  axis whose dimension or voxel size is not positive (\<open>None\<close>, with the header as it is at
  that moment).
\<close>

fun createLoop ::
  "(nat \<Rightarrow> 16 word) \<Rightarrow> (nat \<Rightarrow> 32 word) \<Rightarrow> nat list \<Rightarrow> byte list \<Rightarrow> bool \<times> byte list" where
  "createLoop dims pixdim [] h = (True, h)"
| "createLoop dims pixdim (i # is) h =
     (if sint (dims i) \<le> 0 \<or> float_le_zero (pixdim i) then (False, h)
      else createLoop dims pixdim is
             (set_word f_origin i float_0
               (set_word f_voxel_size i (pixdim i)
                 (set_short f_dim i (dims i) h))))"

text \<open>The assignments of \<open>create\<close> between the loop and \<open>fopen\<close>, in their order.\<close>

definition createFields :: "byte list \<Rightarrow> byte list" where
  "createFields h =
     (set_word f_hdr_size 0 1000
     (set_word f_version 0 1
     (set_word f_n_count 0 0
     (set_chars f_swap_zx [0]
     (set_chars f_swap_yz [0]
     (set_chars f_swap_xy [0]
     (set_chars f_invert_z [0]
     (set_chars f_invert_y [0]
     (set_chars f_invert_x [0]
     (set_chars f_pad1 [0, 0]
     (set_word f_image_orientation_patient 5 float_0
     (set_word f_image_orientation_patient 4 float_1
     (set_word f_image_orientation_patient 3 float_0
     (set_word f_image_orientation_patient 2 float_0
     (set_word f_image_orientation_patient 1 float_0
     (set_word f_image_orientation_patient 0 float_1
     (set_chars f_pad2 [76, 80, 83, 0]
     (set_chars f_voxel_order [76, 80, 83, 0]
     (set_short f_n_properties 0 0
     (set_short f_n_scalars 0 0 h))))))))))))))))))))"

text \<open>
  \<open>create\<close>: the result is the returned \<open>short\<close> and the object.  \<open>fopen_ok\<close> tells
  whether \<open>fopen(filename, "w+b")\<close> returns a file, which is then empty.  \<open>"LPS"\<close> is the
  bytes 76, 80, 83, 0 and \<open>"TRACK"\<close> the bytes 84, 82, 65, 67, 75, 0.
\<close>

definition TrackVis_create ::
  "TrackVis \<Rightarrow> (nat \<Rightarrow> 16 word) \<Rightarrow> (nat \<Rightarrow> 32 word) \<Rightarrow> bool \<Rightarrow> int \<times> TrackVis" where
  "TrackVis_create T dims pixdim fopen_ok =
     (case createLoop dims pixdim [0, 1, 2] (hdr T) of
        (False, h) \<Rightarrow> (0, T\<lparr>hdr := h\<rparr>)
      | (True, h) \<Rightarrow>
          let h1 = createFields h
          in if \<not> fopen_ok then (0, T\<lparr>hdr := h1, fp := None\<rparr>)
             else
               let h2 = set_chars f_id_string [84, 82, 65, 67, 75, 0] h1
               in (1, T\<lparr>hdr := h2,
                        fp := Some (fwrite (load 0 1000 h2) \<lparr>contents = [], fpos = 0\<rparr>)\<rparr>))"

text \<open>
  \<open>updateTotal\<close> and \<open>close\<close> use \<open>fp\<close> without a test: \<open>None\<close> is the call on a NULL file
  pointer.  \<open>close\<close> also gives the contents that the file keeps.
\<close>

definition TrackVis_updateTotal :: "TrackVis \<Rightarrow> 32 word \<Rightarrow> TrackVis option" where
  "TrackVis_updateTotal T totFibers =
     (case fp T of
        None \<Rightarrow> None
      | Some f \<Rightarrow> Some (T\<lparr>fp := Some (fwrite (bytes32 totFibers) (fseek_set (1000 - 12) f))\<rparr>))"

definition TrackVis_close :: "TrackVis \<Rightarrow> (byte list \<times> TrackVis) option" where
  "TrackVis_close T =
     (case fp T of None \<Rightarrow> None | Some f \<Rightarrow> Some (contents f, T\<lparr>fp := None\<rparr>))"

text \<open>
  \<open>open\<close> on a file with the given contents (\<open>None\<close>: \<open>fopen(filename, "r+b")\<close> fails and
  0 is returned): \<open>fread\<close> copies up to 1000 bytes over \<open>hdr\<close> and their number is returned.
\<close>

definition TrackVis_open :: "TrackVis \<Rightarrow> byte list option \<Rightarrow> int \<times> TrackVis" where
  "TrackVis_open T file =
     (case file of
        None \<Rightarrow> (0, T\<lparr>fp := None\<rparr>)
      | Some bs \<Rightarrow>
          let got = load 0 1000 bs
          in (int (length got),
              T\<lparr>hdr := store 0 got (hdr T), fp := Some \<lparr>contents = bs, fpos = length got\<rparr>\<rparr>))"

section \<open>Notions used in the statements\<close>

text \<open>
  A ranked candidate \<open>i\<close> of a voxel qualifies for the travel direction \<open>d\<close> when its
  volume fraction is above the threshold and the absolute cosine \<open>|d . candidate|\<close> is
  above \<open>ANGLE_thr\<close>.
\<close>

definition qualifies :: "streamline \<Rightarrow> Vec3Di \<Rightarrow> Vec3Df \<Rightarrow> int \<Rightarrow> bool" where
  "qualifies S voxel d i =
     (volFrac S voxel i > volFracThr (CONFIG S) \<and> \<bar>dotProd d (candDir S voxel i)\<bar> > ANGLE_thr S)"

text \<open>
  The candidate direction, negated when it points against \<open>d\<close>.
\<close>

definition signCorrected :: "Vec3Df \<Rightarrow> Vec3Df \<Rightarrow> Vec3Df" where
  "signCorrected d c =
     (case c of (cx, cy, cz) \<Rightarrow> if dotProd d c < 0 then (- cx, - cy, - cz) else (cx, cy, cz))"

text \<open>
  The invariant of the loop of \<open>pickBestDir\<close> after the candidates in \<open>P\<close>: \<open>q\<close> tells
  which candidates qualify, \<open>a\<close> is the absolute cosine and \<open>s\<close> the signed index that the
  loop stores.
\<close>

definition pickInv :: "(int \<Rightarrow> bool) \<Rightarrow> (int \<Rightarrow> real) \<Rightarrow> (int \<Rightarrow> int) \<Rightarrow> int set \<Rightarrow> int \<times> real \<Rightarrow> bool" where
  "pickInv q a s P st =
     (case st of (idx, mx) \<Rightarrow>
       (idx = 0 \<and> mx = 0 \<and> (\<forall>j\<in>P. \<not> (q j \<and> a j > 0))) \<or>
       (\<exists>i\<in>P. idx = s i \<and> mx = a i \<and> q i \<and> a i > 0 \<and>
            (\<forall>j\<in>P. q j \<longrightarrow> a j \<le> a i) \<and>
            (\<forall>j\<in>P. j < i \<longrightarrow> q j \<longrightarrow> a j < a i)))"

text \<open>
  The fibers grown from one seed point: one for each ranked direction of the seed voxel
  whose volume fraction is above the threshold, in rank order.
\<close>

definition seedFibers :: "streamline \<Rightarrow> Vec3Di \<Rightarrow> Vec3Df \<Rightarrow> (Vec3Df list \<times> int) list" where
  "seedFibers S xyz cs =
     map (\<lambda>sd. growFiber S cs (candDir S xyz sd))
       (filter (\<lambda>sd. volFrac S xyz sd > volFracThr (CONFIG S)) [0, 1, 2])"

text \<open>
  The seed points of a voxel that are tried, by their number: the points before the first
  one outside the white matter.  Point \<open>i\<close> is made from the values \<open>k + 3i\<close>,
  \<open>k + 3i + 1\<close>, \<open>k + 3i + 2\<close> of the random source.
\<close>

definition seedsTried :: "streamline \<Rightarrow> (nat \<Rightarrow> real) \<Rightarrow> Vec3Di \<Rightarrow> nat \<Rightarrow> nat \<Rightarrow> nat list" where
  "seedsTried S rnd xyz k n =
     takeWhile (\<lambda>i. \<not> outsideWM S (seedPoint S rnd (k + 3 * i) xyz)) [0..<n]"

text \<open>
  The fibers that the growth engine produces during \<open>doTracking\<close>, in their order: those
  that \<open>trackFromXYZ\<close> returns at the voxels of the list that the seed mask does not
  exclude, each call drawing from the random source where the call before has left it.
  The second component is the number of values drawn at the end.
\<close>

fun foundAll ::
  "streamline \<Rightarrow> (nat \<Rightarrow> real) \<Rightarrow> nat \<Rightarrow> Vec3Di list \<Rightarrow> (Vec3Df list \<times> int) list \<times> nat" where
  "foundAll S rnd k [] = ([], k)"
| "foundAll S rnd k (xyz # vs) =
     (if (case niiSEED S of None \<Rightarrow> False
          | Some seed \<Rightarrow> (case xyz of (x, y, z) \<Rightarrow> img seed x y z = 0))
      then foundAll S rnd k vs
      else (case trackFromXYZ S rnd k xyz of (found, k') \<Rightarrow>
              case foundAll S rnd k' vs of (rest, k'') \<Rightarrow> (found @ rest, k'')))"

text \<open>
  The cell of a point as \<open>append\<close> computes it, from the floor of the coordinates with no
  voxel size involved; the points of a fiber that are the first of a run of consecutive
  points in one cell; and a list of points as the sequence of coordinates that \<open>append\<close>
  writes.
\<close>

definition cellOf :: "Vec3Df \<Rightarrow> Vec3Di" where
  "cellOf p = (case p of (px, py, pz) \<Rightarrow> (floor_to_int px, floor_to_int py, floor_to_int pz))"

fun firstOfRuns :: "Vec3Df list \<Rightarrow> Vec3Df list" where
  "firstOfRuns [] = []"
| "firstOfRuns [p] = [p]"
| "firstOfRuns (p # q # ps) =
     (if cellOf p = cellOf q then firstOfRuns (p # ps) else p # firstOfRuns (q # ps))"

definition flatten :: "Vec3Df list \<Rightarrow> real list" where
  "flatten ps = concat (map (\<lambda>(px, py, pz).
      [px + TRACKVIS_VOXEL_OFFSET, py + TRACKVIS_VOXEL_OFFSET, pz + TRACKVIS_VOXEL_OFFSET]) ps)"

text \<open>
  The seed points of a voxel that would be tried if a point outside the white matter only
  skipped its own three directions: every point that is inside.
\<close>

definition seedsClaimed :: "streamline \<Rightarrow> (nat \<Rightarrow> real) \<Rightarrow> Vec3Di \<Rightarrow> nat \<Rightarrow> nat \<Rightarrow> nat list" where
  "seedsClaimed S rnd xyz k n =
     filter (\<lambda>i. \<not> outsideWM S (seedPoint S rnd (k + 3 * i) xyz)) [0..<n]"

text \<open>
  The header in memory after the assignments of a successful \<open>create\<close>, and the file that
  a session of the orchestrator leaves: \<open>create\<close> on a new object, the bytes of the fiber
  records written behind the header, \<open>updateTotal\<close>, \<open>close\<close>.
\<close>

definition createdHdr :: "(nat \<Rightarrow> 16 word) \<Rightarrow> (nat \<Rightarrow> 32 word) \<Rightarrow> byte list \<Rightarrow> byte list" where
  "createdHdr dims pixdim h =
     set_chars f_id_string [84, 82, 65, 67, 75, 0]
       (createFields (snd (createLoop dims pixdim [0, 1, 2] h)))"

definition store_session ::
  "byte list \<Rightarrow> (nat \<Rightarrow> 16 word) \<Rightarrow> (nat \<Rightarrow> 32 word) \<Rightarrow> byte list \<Rightarrow> 32 word \<Rightarrow> byte list option" where
  "store_session garbage dims pixdim body totFibers =
     (case TrackVis_create (TrackVis_new garbage) dims pixdim True of
        (r, T1) \<Rightarrow>
          if r \<noteq> 1 then None
          else (case fp T1 of
                  None \<Rightarrow> None
                | Some f \<Rightarrow>
                    (case TrackVis_updateTotal (T1\<lparr>fp := Some (fwrite body f)\<rparr>) totFibers of
                       None \<Rightarrow> None
                     | Some T2 \<Rightarrow> map_option fst (TrackVis_close T2))))"

section \<open>Example inputs\<close>


text \<open>
  The same grid with the single direction \<open>(1,0,0)\<close> of volume fraction 1 in every voxel,
  one seed point for each voxel, step size 1 and no volume-fraction threshold; the
  minimum and the maximum length are left open.  The random source returns 1/2 every
  time, so a seed point is the centre of its voxel.
\<close>

definition exLine :: "int \<Rightarrow> int \<Rightarrow> streamline" where
  "exLine minLen maxLen =
     \<lparr>ANGLE_thr = 7071 / 10000,
      CONFIG = \<lparr>seeds = 1, minLength = minLen, maxLength = maxLen, stepSize = 1, volFracThr = 0, maxAngle = 45\<rparr>,
      niiDIR = \<lparr>hdr_dim = (\<lambda>k. if k = 1 then 3 else 1), hdr_pixdim = (\<lambda>k. 1),
                img = (\<lambda>x y z c. if c = 0 then 1 else if c = 1 then 1 else 0)\<rparr>,
      niiMASK = \<lparr>hdr_dim = (\<lambda>k. if k = 1 then 3 else 1), hdr_pixdim = (\<lambda>k. 1),
                 img = (\<lambda>x y z. 1)\<rparr>,
      niiSEED = None\<rparr>"

definition exRnd :: "nat \<Rightarrow> real" where
  "exRnd k = 1 / 2"

text \<open>
  A row of 4 x 1 x 1 voxels of a given size with the direction \<open>(1,0,0)\<close> of volume
  fraction 1 in every voxel, a white-matter mask of the same grid that is inside
  everywhere and a seed mask of the same grid that selects the first voxel; one seed
  point, fibers of at most 4 points, the step size and the minimum length left open.
  \<open>exStepSize\<close> is the float nearest to 5/3.
\<close>

definition exRow :: "real \<Rightarrow> real \<Rightarrow> int \<Rightarrow> streamline" where
  "exRow vox step minLen =
     \<lparr>ANGLE_thr = 7071 / 10000,
      CONFIG = \<lparr>seeds = 1, minLength = minLen, maxLength = 4, stepSize = step, volFracThr = 0, maxAngle = 45\<rparr>,
      niiDIR = \<lparr>hdr_dim = (\<lambda>k. if k = 1 then 4 else 1), hdr_pixdim = (\<lambda>k. vox),
                img = (\<lambda>x y z c. if c = 0 then 1 else if c = 1 then 1 else 0)\<rparr>,
      niiMASK = \<lparr>hdr_dim = (\<lambda>k. if k = 1 then 4 else 1), hdr_pixdim = (\<lambda>k. vox),
                 img = (\<lambda>x y z. 1)\<rparr>,
      niiSEED = Some \<lparr>hdr_dim = (\<lambda>k. if k = 1 then 4 else 1), hdr_pixdim = (\<lambda>k. vox),
                      img = (\<lambda>x y z. if x = 0 then 1 else 0)\<rparr>\<rparr>"

definition exStepSize :: real where
  "exStepSize = 13981013 / 8388608"

text \<open>The direction field of the line example with every value 0.\<close>

definition exZero :: streamline where
  "exZero = (exLine 0 10)\<lparr>niiDIR := (niiDIR (exLine 0 10))\<lparr>img := (\<lambda>x y z c. 0)\<rparr>\<rparr>"

text \<open>
  A single direction-field voxel of size 1 under a white-matter mask of 2 x 2 x 2 voxels
  of size 1/2 that is inside only for \<open>x = 1\<close>, with two seed points for each voxel; the
  random source puts the first seed point in the outside half of the voxel and the second
  in the inside half.  The two grids cover the same field of view.
\<close>

definition exFine :: streamline where
  "exFine =
     \<lparr>ANGLE_thr = 7071 / 10000,
      CONFIG = \<lparr>seeds = 2, minLength = 0, maxLength = 10, stepSize = 1, volFracThr = 0, maxAngle = 45\<rparr>,
      niiDIR = \<lparr>hdr_dim = (\<lambda>k. 1), hdr_pixdim = (\<lambda>k. 1),
                img = (\<lambda>x y z c. if c = 0 then 1 else if c = 1 then 1 else 0)\<rparr>,
      niiMASK = \<lparr>hdr_dim = (\<lambda>k. 2), hdr_pixdim = (\<lambda>k. 1 / 2),
                 img = (\<lambda>x y z. if x = 1 then 1 else 0)\<rparr>,
      niiSEED = None\<rparr>"

definition exRnd2 :: "nat \<Rightarrow> real" where
  "exRnd2 k = (if k = 3 then 3 / 4 else 1 / 4)"

text \<open>A command line with all paths given and every parameter at its default but \<open>minLength = -5\<close>.\<close>

definition exOptions :: options where
  "exOptions =
     \<lparr>has_dir = True, has_seed = False, has_wm = True, has_out = True,
      parsed = \<lparr>seeds = 1, minLength = - 5, maxLength = 1000, stepSize = 1, volFracThr = 0,
                maxAngle = 45\<rparr>\<rparr>"

text \<open>
  A seed mask of another grid than the direction field of the line example, and a
  white-matter mask of the same grid with voxels of size 2.
\<close>

definition exSeedMask :: "UINT8_image NIFTI" where
  "exSeedMask = \<lparr>hdr_dim = (\<lambda>k. 2), hdr_pixdim = (\<lambda>k. 1), img = (\<lambda>x y z. 1)\<rparr>"

definition exWideMask :: "UINT8_image NIFTI" where
  "exWideMask = \<lparr>hdr_dim = (\<lambda>k. if k = 1 then 3 else 1), hdr_pixdim = (\<lambda>k. 2), img = (\<lambda>x y z. 1)\<rparr>"

text \<open>
  A grid of 96 x 96 x 60 voxels of size 2.0 on every axis (\<open>0x40000000\<close> is the float 2.0).
\<close>

definition exDims :: "nat \<Rightarrow> 16 word" where
  "exDims i = (if i = 2 then 60 else 96)"

definition exPixdim :: "nat \<Rightarrow> 32 word" where
  "exPixdim i = 0x40000000"

section \<open>Properties of direction selection\<close>

lemma pickInv_step:
  assumes inv: "pickInv q a s P (idx, mx)" and above: "\<forall>j\<in>P. j < n"
  shows "pickInv q a s (insert n P) (if q n \<and> a n > mx then (s n, a n) else (idx, mx))"
proof (cases "q n \<and> a n > mx")
  case True
  from inv have mx0: "mx \<ge> 0" by (auto simp: pickInv_def)
  from inv have le: "\<forall>j\<in>P. q j \<longrightarrow> a j \<le> mx"
    by (fastforce simp: pickInv_def)
  have "q n \<and> a n > 0 \<and> (\<forall>j\<in>insert n P. q j \<longrightarrow> a j \<le> a n) \<and>
        (\<forall>j\<in>insert n P. j < n \<longrightarrow> q j \<longrightarrow> a j < a n)"
    using True mx0 le by fastforce
  then have "\<exists>i\<in>insert n P. s n = s i \<and> a n = a i \<and> q i \<and> a i > 0 \<and>
            (\<forall>j\<in>insert n P. q j \<longrightarrow> a j \<le> a i) \<and>
            (\<forall>j\<in>insert n P. j < i \<longrightarrow> q j \<longrightarrow> a j < a i)"
    by (intro bexI[of _ n]) simp_all
  then have "pickInv q a s (insert n P) (s n, a n)"
    unfolding pickInv_def prod.case by (rule disjI2)
  with True show ?thesis by (simp only: if_True simp_thms)
next
  case False
  from inv consider
      (none) "idx = 0" "mx = 0" "\<forall>j\<in>P. \<not> (q j \<and> a j > 0)"
    | (some) i where "i \<in> P" "idx = s i" "mx = a i" "q i" "a i > 0"
        "\<forall>j\<in>P. q j \<longrightarrow> a j \<le> a i" "\<forall>j\<in>P. j < i \<longrightarrow> q j \<longrightarrow> a j < a i"
    by (auto simp: pickInv_def)
  then show ?thesis
  proof cases
    case none
    with False have "\<forall>j\<in>insert n P. \<not> (q j \<and> a j > 0)" by auto
    with none have "pickInv q a s (insert n P) (idx, mx)"
      unfolding pickInv_def prod.case by blast
    with False show ?thesis by (simp only: if_False simp_thms)
  next
    case some
    from some above have "i < n" by blast
    with some False have "i \<in> insert n P \<and> idx = s i \<and> mx = a i \<and> q i \<and> a i > 0 \<and>
            (\<forall>j\<in>insert n P. q j \<longrightarrow> a j \<le> a i) \<and>
            (\<forall>j\<in>insert n P. j < i \<longrightarrow> q j \<longrightarrow> a j < a i)"
      by auto
    then have "\<exists>i\<in>insert n P. idx = s i \<and> mx = a i \<and> q i \<and> a i > 0 \<and>
            (\<forall>j\<in>insert n P. q j \<longrightarrow> a j \<le> a i) \<and>
            (\<forall>j\<in>insert n P. j < i \<longrightarrow> q j \<longrightarrow> a j < a i)"
      by blast
    then have "pickInv q a s (insert n P) (idx, mx)"
      unfolding pickInv_def prod.case by (rule disjI2)
    with False show ?thesis by (simp only: if_False simp_thms)
  qed
qed

lemma pickStep_alt:
  "pickStep S voxel d (idx, mx) i =
     (if qualifies S voxel d i \<and> \<bar>dotProd d (candDir S voxel i)\<bar> > mx
      then (if dotProd d (candDir S voxel i) > 0 then i + 1 else - (i + 1), \<bar>dotProd d (candDir S voxel i)\<bar>)
      else (idx, mx))"
  by (simp add: pickStep_def qualifies_def Let_def)

lemma pickInv_pickStep:
  assumes "pickInv (qualifies S voxel d) (\<lambda>i. \<bar>dotProd d (candDir S voxel i)\<bar>)
              (\<lambda>i. if dotProd d (candDir S voxel i) > 0 then i + 1 else - (i + 1)) P st"
    and "\<forall>j\<in>P. j < n"
  shows "pickInv (qualifies S voxel d) (\<lambda>i. \<bar>dotProd d (candDir S voxel i)\<bar>)
              (\<lambda>i. if dotProd d (candDir S voxel i) > 0 then i + 1 else - (i + 1)) (insert n P)
              (pickStep S voxel d st n)"
proof -
  obtain idx mx where st: "st = (idx, mx)" by (cases st)
  show ?thesis
    using pickInv_step[OF assms(1)[unfolded st] assms(2)]
    unfolding st pickStep_alt .
qed

lemma pickInv_foldl:
  "pickInv (qualifies S voxel d) (\<lambda>i. \<bar>dotProd d (candDir S voxel i)\<bar>)
      (\<lambda>i. if dotProd d (candDir S voxel i) > 0 then i + 1 else - (i + 1)) {0, 1, 2}
      (foldl (pickStep S voxel d) (0, 0) [0, 1, 2])"
proof -
  let ?I = "pickInv (qualifies S voxel d) (\<lambda>i. \<bar>dotProd d (candDir S voxel i)\<bar>)
      (\<lambda>i. if dotProd d (candDir S voxel i) > 0 then i + 1 else - (i + 1))"
  have i0: "?I {} (0, 0)" by (simp add: pickInv_def)
  have i1: "?I {0} (pickStep S voxel d (0, 0) 0)"
    using pickInv_pickStep[OF i0, of 0] by simp
  have i2: "?I {1, 0} (pickStep S voxel d (pickStep S voxel d (0, 0) 0) 1)"
    using pickInv_pickStep[OF i1, of 1] by simp
  have i3: "?I {2, 1, 0} (pickStep S voxel d (pickStep S voxel d (pickStep S voxel d (0, 0) 0) 1) 2)"
    using pickInv_pickStep[OF i2, of 2] by simp
  have "{2, 1, 0} = {0, 1, 2::int}" by auto
  with i3 show ?thesis by simp
qed


lemma pickIdx_cases:
  "(pickIdx S voxel d = 0 \<and> (\<forall>j\<in>{0, 1, 2}. \<not> (qualifies S voxel d j \<and> \<bar>dotProd d (candDir S voxel j)\<bar> > 0))) \<or>
   (\<exists>i\<in>{0, 1, 2}.
       pickIdx S voxel d = (if dotProd d (candDir S voxel i) > 0 then i + 1 else - (i + 1)) \<and>
       qualifies S voxel d i \<and> \<bar>dotProd d (candDir S voxel i)\<bar> > 0 \<and>
       (\<forall>j\<in>{0, 1, 2}. qualifies S voxel d j \<longrightarrow>
           \<bar>dotProd d (candDir S voxel j)\<bar> \<le> \<bar>dotProd d (candDir S voxel i)\<bar>) \<and>
       (\<forall>j\<in>{0, 1, 2}. j < i \<longrightarrow> qualifies S voxel d j \<longrightarrow>
           \<bar>dotProd d (candDir S voxel j)\<bar> < \<bar>dotProd d (candDir S voxel i)\<bar>))"
proof -
  obtain idx mx where st: "foldl (pickStep S voxel d) (0, 0) [0, 1, 2] = (idx, mx)"
    by (cases "foldl (pickStep S voxel d) (0, 0) [0, 1, 2]")
  have idx: "pickIdx S voxel d = idx" by (simp only: pickIdx_def st fst_conv)
  show ?thesis
    using pickInv_foldl[of S voxel d] unfolding st idx pickInv_def prod.case by blast
qed

lemma pickBestDir_unfold:
  assumes "pickIdx S (vx, vy, vz) d = k" and "k \<noteq> 0"
  shows "pickBestDir S (vx, vy, vz) d =
     Some (of_int (if k < 0 then - 1 else 1) * img (niiDIR S) vx vy vz ((\<bar>k\<bar> - 1) * 4 + 1),
           of_int (if k < 0 then - 1 else 1) * img (niiDIR S) vx vy vz ((\<bar>k\<bar> - 1) * 4 + 2),
           of_int (if k < 0 then - 1 else 1) * img (niiDIR S) vx vy vz ((\<bar>k\<bar> - 1) * 4 + 3))"
  using assms by (simp add: pickBestDir_def Let_def)

lemma pickBestDir_of_idx:
  assumes "i \<in> {0, 1, 2}" and "dotProd d (candDir S voxel i) \<noteq> 0"
    and "pickIdx S voxel d = (if dotProd d (candDir S voxel i) > 0 then i + 1 else - (i + 1))"
  shows "pickBestDir S voxel d = Some (signCorrected d (candDir S voxel i))"
proof -
  obtain vx vy vz where v: "voxel = (vx, vy, vz)" by (cases voxel)
  from assms(1) have i0: "0 \<le> i" by auto
  show ?thesis
  proof (cases "dotProd d (candDir S voxel i) > 0")
    case True
    with assms(3) have k: "pickIdx S (vx, vy, vz) d = i + 1" by (simp add: v)
    have "i + 1 \<noteq> 0" using i0 by simp
    from pickBestDir_unfold[OF k this] True i0 show ?thesis
      by (simp add: v signCorrected_def candDir_def)
  next
    case False
    with assms(2) have neg: "dotProd d (candDir S voxel i) < 0" by simp
    from False assms(3) have k: "pickIdx S (vx, vy, vz) d = - (i + 1)" by (simp add: v)
    have "- (i + 1) \<noteq> 0" using i0 by simp
    from pickBestDir_unfold[OF k this] neg i0 show ?thesis
      by (simp add: v signCorrected_def candDir_def)
  qed
qed





section \<open>Properties of fiber growth\<close>

lemma whileLoop_result:
  "whileLoop S COORD dir buf step = (COORD', dir', buf', step') \<Longrightarrow>
     step \<le> step' \<and> step' \<le> max step (maxLength (CONFIG S))"
proof (induction S COORD dir buf step arbitrary: COORD' dir' buf' step' rule: whileLoop.induct)
  case (1 S COORD dir buf step)
  show ?case
  proof (cases "step < maxLength (CONFIG S) \<and> \<not> outsideWM S COORD")
    case False
    with "1.prems" have "step' = step"
      by (auto simp: whileLoop.simps[of S COORD dir buf step] split: if_splits)
    then show ?thesis by simp
  next
    case True
    show ?thesis
    proof (cases "pickBestDir S (voxelOf (hdr_pixdim (niiDIR S)) COORD) dir")
      case None
      with True "1.prems" have "step' = step"
        by (auto simp: whileLoop.simps[of S COORD dir buf step])
      then show ?thesis by simp
    next
      case (Some d2)
      define C2 where "C2 = advance COORD (stepSize (CONFIG S)) d2"
      from True Some "1.prems"
      have rec: "whileLoop S C2 d2 (putCol (maxLength (CONFIG S)) buf step C2) (step + 1) =
                   (COORD', dir', buf', step')"
        by (simp add: whileLoop.simps[of S COORD dir buf step] C2_def Let_def)
      from "1.IH"[OF _ _ Some C2_def rec] True
      have "step + 1 \<le> step'" "step' \<le> max (step + 1) (maxLength (CONFIG S))"
        by auto
      with True show ?thesis by auto
    qed
  qed
qed

lemma semiStep_result:
  assumes "semiStep S (C, buf, step) semi = (C', buf', step')"
  shows "step \<le> step' \<and> step' \<le> max step (maxLength (CONFIG S))"
proof -
  define dir where "dir = Normalize (vecDiff (getCol (maxLength (CONFIG S)) buf (step - 1))
                                             (getCol (maxLength (CONFIG S)) buf (step - 2)))"
  obtain C1 d1 buf1 step1 where w: "whileLoop S C dir buf step = (C1, d1, buf1, step1)"
    by (metis prod_cases4)
  from assms have "step' = step1"
    by (auto simp: semiStep_def Let_def dir_def[symmetric] w split: if_splits)
  with whileLoop_result[OF w] show ?thesis by auto
qed

lemma length_colsOf: "0 \<le> step \<Longrightarrow> int (length (colsOf n buf step)) = step"
  by (simp add: colsOf_def)

lemma growFiber_result:
  assumes "growFiber S COORD_seed dir = (fib, len)"
  shows "2 \<le> len \<and> len \<le> max 2 (maxLength (CONFIG S)) \<and> int (length fib) = len"
proof -
  define n where "n = maxLength (CONFIG S)"
  define buf0 where "buf0 = putCol n (putCol n (\<lambda>_. 0) 0 COORD_seed) 1
                   (advance COORD_seed (stepSize (CONFIG S)) dir)"
  obtain C1 buf1 step1 where s1: "semiStep S (getCol n buf0 1, buf0, 2) 0 = (C1, buf1, step1)"
    by (metis prod_cases3)
  obtain C2 buf2 step2 where s2: "semiStep S (C1, buf1, step1) 1 = (C2, buf2, step2)"
    by (metis prod_cases3)
  have g: "growFiber S COORD_seed dir = (colsOf n buf2 step2, step2)"
    by (simp add: growFiber_def Let_def n_def[symmetric] buf0_def[symmetric] s1 s2)
  from semiStep_result[OF s1] semiStep_result[OF s2]
  have r: "2 \<le> step2" "step2 \<le> max 2 (maxLength (CONFIG S))" by auto
  with assms g length_colsOf[of step2 n buf2] show ?thesis by auto
qed

text \<open>
  For \<open>0 \<le> c < maxLength\<close> the three floats of column \<open>c\<close> are apart from those of every
  other such column, so below \<open>maxLength\<close> the buffer is the list of its columns:
  writing column \<open>step\<close> appends a point, and reversing the columns reverses the list.
\<close>

lemma getCol_putCol_same: "n \<noteq> 0 \<Longrightarrow> getCol n (putCol n buf c p) c = p"
  by (cases p) (simp add: getCol_def putCol_def)

lemma getCol_putCol_other:
  "0 \<le> c \<Longrightarrow> c < n \<Longrightarrow> 0 \<le> d \<Longrightarrow> d < n \<Longrightarrow> c \<noteq> d \<Longrightarrow>
     getCol n (putCol n buf c p) d = getCol n buf d"
  by (cases p) (simp add: getCol_def putCol_def)

lemma colsOf_putCol:
  assumes "0 \<le> step" "step < n"
  shows "colsOf n (putCol n buf step p) (step + 1) = colsOf n buf step @ [p]"
proof -
  have "[0..step + 1 - 1] = [0..step - 1] @ [step]"
    using assms upto_rec2[of 0 step] by simp
  moreover have "map (getCol n (putCol n buf step p)) [0..step - 1] = map (getCol n buf) [0..step - 1]"
    using assms by (intro map_cong refl getCol_putCol_other) auto
  moreover have "getCol n (putCol n buf step p) step = p"
    using assms by (intro getCol_putCol_same) auto
  ultimately show ?thesis by (simp add: colsOf_def)
qed

lemma whileLoop_cols:
  "whileLoop S COORD dir buf step = (COORD', dir', buf', step') \<Longrightarrow> 0 \<le> step \<Longrightarrow>
     \<exists>ext. colsOf (maxLength (CONFIG S)) buf' step' = colsOf (maxLength (CONFIG S)) buf step @ ext"
proof (induction S COORD dir buf step arbitrary: COORD' dir' buf' step' rule: whileLoop.induct)
  case (1 S COORD dir buf step)
  show ?case
  proof (cases "step < maxLength (CONFIG S) \<and> \<not> outsideWM S COORD")
    case False
    with "1.prems" have "step' = step" "buf' = buf"
      by (auto simp: whileLoop.simps[of S COORD dir buf step] split: if_splits)
    then show ?thesis by simp
  next
    case True
    show ?thesis
    proof (cases "pickBestDir S (voxelOf (hdr_pixdim (niiDIR S)) COORD) dir")
      case None
      with True "1.prems" have "step' = step" "buf' = buf"
        by (auto simp: whileLoop.simps[of S COORD dir buf step])
      then show ?thesis by simp
    next
      case (Some d2)
      define C2 where "C2 = advance COORD (stepSize (CONFIG S)) d2"
      from True Some "1.prems"
      have rec: "whileLoop S C2 d2 (putCol (maxLength (CONFIG S)) buf step C2) (step + 1) =
                   (COORD', dir', buf', step')"
        by (simp add: whileLoop.simps[of S COORD dir buf step] C2_def Let_def)
      from "1.IH"[OF _ _ Some C2_def rec] True "1.prems"(2)
      obtain ext where "colsOf (maxLength (CONFIG S)) buf' step' =
          colsOf (maxLength (CONFIG S)) (putCol (maxLength (CONFIG S)) buf step C2) (step + 1) @ ext"
        by auto
      with colsOf_putCol[of step "maxLength (CONFIG S)" buf C2] True "1.prems"(2)
      show ?thesis by auto
    qed
  qed
qed

lemma foldl_upd_other:
  "i \<notin> key ` set ks \<Longrightarrow> foldl (\<lambda>b k. b(key k := val k)) buf ks i = buf i"
  by (induction ks arbitrary: buf) auto

lemma foldl_upd_at:
  "distinct (map key ks) \<Longrightarrow> k \<in> set ks \<Longrightarrow>
     foldl (\<lambda>b k. b(key k := val k)) buf ks (key k) = val k"
proof (induction ks arbitrary: buf)
  case Nil then show ?case by simp
next
  case (Cons a ks)
  show ?case
  proof (cases "k = a")
    case True
    with Cons.prems have "key a \<notin> key ` set ks" by auto
    from foldl_upd_other[OF this, of val "buf(key a := val a)"] True show ?thesis
      by (simp only: foldl_Cons fun_upd_same)
  next
    case False
    with Cons show ?thesis by auto
  qed
qed

lemma reverseCols_at:
  assumes "0 \<le> c" "c < step" "step \<le> n" "r \<in> {0, 1, 2}"
  shows "reverseCols n buf step (r * n + c) = buf (r * n + (step - 1 - c))"
proof -
  define ks where "ks = concat (map (\<lambda>r. map (\<lambda>c. (r, c)) [0..step - 1]) [0, 1, 2::int])"
  define key where "key = (\<lambda>rc :: int \<times> int. case rc of (r, c) \<Rightarrow> r * n + c)"
  define val where "val = (\<lambda>rc :: int \<times> int. case rc of (r, c) \<Rightarrow> buf (r * n + (step - 1 - c)))"
  have f: "reverseCols n buf step = foldl (\<lambda>b k. b(key k := val k)) buf ks"
    unfolding reverseCols_def ks_def key_def val_def
    by (intro arg_cong[where f = "\<lambda>f. foldl f buf _"] ext) (simp split: prod.splits)
  have mk: "map key ks = [0..step - 1] @ map (\<lambda>c. n + c) [0..step - 1] @ map (\<lambda>c. 2 * n + c) [0..step - 1]"
    by (simp add: ks_def key_def o_def)
  have d: "distinct (map key ks)"
    unfolding mk using assms(3) by (auto simp: distinct_map inj_on_def)
  have m: "(r, c) \<in> set ks" using assms by (auto simp: ks_def)
  from foldl_upd_at[OF d m, of val buf] show ?thesis by (simp add: f key_def val_def)
qed

lemma getCol_reverseCols:
  assumes "0 \<le> c" "c < step" "step \<le> n"
  shows "getCol n (reverseCols n buf step) c = getCol n buf (step - 1 - c)"
  using reverseCols_at[OF assms, of 0 buf] reverseCols_at[OF assms, of 1 buf]
        reverseCols_at[OF assms, of 2 buf]
  by (simp add: getCol_def)

lemma colsOf_reverseCols:
  assumes "0 \<le> step" "step \<le> n"
  shows "colsOf n (reverseCols n buf step) step = rev (colsOf n buf step)"
proof (rule nth_equalityI)
  show "length (colsOf n (reverseCols n buf step) step) = length (rev (colsOf n buf step))"
    by (simp add: colsOf_def)
next
  fix i assume "i < length (colsOf n (reverseCols n buf step) step)"
  then have i: "int i < step" using assms by (simp add: colsOf_def)
  have "colsOf n (reverseCols n buf step) step ! i = getCol n (reverseCols n buf step) (int i)"
    using i by (simp add: colsOf_def)
  also have "\<dots> = getCol n buf (step - 1 - int i)"
    using i assms by (intro getCol_reverseCols) auto
  also have "\<dots> = rev (colsOf n buf step) ! i"
  proof -
    have "nat step - Suc i < nat step" using i assms by auto
    moreover have "int (nat step - Suc i) = step - 1 - int i" using i assms by auto
    ultimately show ?thesis using i assms by (simp add: colsOf_def rev_nth del: of_nat_diff)
  qed
  finally show "colsOf n (reverseCols n buf step) step ! i = rev (colsOf n buf step) ! i" .
qed


lemma semiStep_cols:
  assumes "semiStep S (C, buf, step) semi = (C', buf', step')"
      and "0 \<le> step" "step \<le> maxLength (CONFIG S)"
  shows "\<exists>ext. colsOf (maxLength (CONFIG S)) buf' step' =
           (if semi = 0 then rev (colsOf (maxLength (CONFIG S)) buf step @ ext)
            else colsOf (maxLength (CONFIG S)) buf step @ ext)"
proof -
  define n where "n = maxLength (CONFIG S)"
  define dir where "dir = Normalize (vecDiff (getCol n buf (step - 1)) (getCol n buf (step - 2)))"
  obtain C1 d1 buf1 step1 where w: "whileLoop S C dir buf step = (C1, d1, buf1, step1)"
    by (metis prod_cases4)
  from assms(1) have r: "buf' = (if semi = 0 then reverseCols n buf1 step1 else buf1)" "step' = step1"
    by (auto simp: semiStep_def Let_def n_def[symmetric] dir_def[symmetric] w split: if_splits)
  from whileLoop_result[OF w] assms(2,3) have b: "0 \<le> step1" "step1 \<le> n"
    by (auto simp: n_def)
  from whileLoop_cols[OF w assms(2)] obtain ext where
    e: "colsOf n buf1 step1 = colsOf n buf step @ ext" by (auto simp: n_def)
  show ?thesis
    unfolding n_def[symmetric] r using colsOf_reverseCols[OF b, of buf1] e
    by (intro exI[of _ ext]) simp
qed

lemma growFiber_points:
  assumes "growFiber S COORD_seed dir = (fib, len)" and "2 \<le> maxLength (CONFIG S)"
  shows "\<exists>a b. fib = a @ [advance COORD_seed (stepSize (CONFIG S)) dir, COORD_seed] @ b"
proof -
  define n where "n = maxLength (CONFIG S)"
  define p1 where "p1 = advance COORD_seed (stepSize (CONFIG S)) dir"
  define buf0 where "buf0 = putCol n (putCol n (\<lambda>_. 0) 0 COORD_seed) 1 p1"
  obtain C1 buf1 step1 where s1: "semiStep S (getCol n buf0 1, buf0, 2) 0 = (C1, buf1, step1)"
    by (metis prod_cases3)
  obtain C2 buf2 step2 where s2: "semiStep S (C1, buf1, step1) 1 = (C2, buf2, step2)"
    by (metis prod_cases3)
  have g: "growFiber S COORD_seed dir = (colsOf n buf2 step2, step2)"
    by (simp add: growFiber_def Let_def n_def[symmetric] p1_def[symmetric] buf0_def[symmetric] s1 s2)
  have n2: "2 \<le> n" using assms(2) by (simp add: n_def)
  have "colsOf n (putCol n (\<lambda>_. 0) 0 COORD_seed) (0 + 1) = colsOf n (\<lambda>_. 0) 0 @ [COORD_seed]"
    using n2 by (intro colsOf_putCol) auto
  then have c1: "colsOf n (putCol n (\<lambda>_. 0) 0 COORD_seed) 1 = [COORD_seed]"
    by (simp add: colsOf_def)
  have "colsOf n buf0 (1 + 1) = colsOf n (putCol n (\<lambda>_. 0) 0 COORD_seed) 1 @ [p1]"
    unfolding buf0_def using n2 by (intro colsOf_putCol) auto
  with c1 have c0: "colsOf n buf0 2 = [COORD_seed, p1]" by simp
  from semiStep_result[OF s1] n2 have b1: "0 \<le> step1" "step1 \<le> n" by (auto simp: n_def)
  from semiStep_cols[OF s1] n2 c0 obtain e1 where
    r1: "colsOf n buf1 step1 = rev ([COORD_seed, p1] @ e1)" by (auto simp: n_def)
  from semiStep_cols[OF s2] b1 r1 obtain e2 where
    r2: "colsOf n buf2 step2 = rev ([COORD_seed, p1] @ e1) @ e2" by (auto simp: n_def)
  have "colsOf n buf2 step2 = rev e1 @ [p1, COORD_seed] @ e2" using r2 by simp
  moreover have "fib = colsOf n buf2 step2" using assms(1) unfolding g by blast
  ultimately show ?thesis unfolding p1_def by blast
qed

lemma seedDirLoop_eq:
  "foldl (seedDirStep S xyz cs) acc [0, 1, 2] =
     acc @ map (\<lambda>sd. growFiber S cs (candDir S xyz sd))
              (filter (\<lambda>sd. volFrac S xyz sd > volFracThr (CONFIG S)) [0, 1, 2])"
  by (simp add: seedDirStep_def)


lemma seedsTried_Suc:
  "seedsTried S rnd xyz k (Suc n) =
     (if outsideWM S (seedPoint S rnd k xyz) then []
      else 0 # map Suc (seedsTried S rnd xyz (k + 3) n))"
proof -
  have "[0..<Suc n] = 0 # map Suc [0..<n]"
    by (simp add: upt_conv_Cons map_Suc_upt del: upt_Suc)
  then show ?thesis
    by (simp add: seedsTried_def takeWhile_map comp_def add.assoc del: upt_Suc)
qed

lemma seedLoop_eq:
  "seedLoop S rnd xyz seedNum k acc =
     (acc @ concat (map (\<lambda>i. seedFibers S xyz (seedPoint S rnd (k + 3 * i) xyz))
                      (seedsTried S rnd xyz k (nat (seeds (CONFIG S) - seedNum)))),
      k + 3 * min (nat (seeds (CONFIG S) - seedNum))
                  (Suc (length (seedsTried S rnd xyz k (nat (seeds (CONFIG S) - seedNum))))))"
proof (induction S rnd xyz seedNum k acc rule: seedLoop.induct)
  case (1 S rnd xyz seedNum k acc)
  show ?case
  proof (cases "seedNum < seeds (CONFIG S)")
    case False
    then have "nat (seeds (CONFIG S) - seedNum) = 0" by simp
    with False show ?thesis
      by (simp add: seedLoop.simps[of S rnd xyz seedNum k acc] seedsTried_def)
  next
    case True
    then have n: "nat (seeds (CONFIG S) - seedNum) = Suc (nat (seeds (CONFIG S) - (seedNum + 1)))"
      by simp
    show ?thesis
    proof (cases "outsideWM S (seedPoint S rnd k xyz)")
      case out: True
      with True show ?thesis
        by (simp add: seedLoop.simps[of S rnd xyz seedNum k acc] n seedsTried_Suc Let_def)
    next
      case ins: False
      have loop: "seedLoop S rnd xyz seedNum k acc =
          seedLoop S rnd xyz (seedNum + 1) (k + 3)
            (foldl (seedDirStep S xyz (seedPoint S rnd k xyz)) acc [0, 1, 2])"
        using True ins by (simp add: seedLoop.simps[of S rnd xyz seedNum k acc] Let_def)
      have acc': "foldl (seedDirStep S xyz (seedPoint S rnd k xyz)) acc [0, 1, 2] =
          acc @ seedFibers S xyz (seedPoint S rnd k xyz)"
        unfolding seedFibers_def by (rule seedDirLoop_eq)
      note ih = "1.IH"[OF True refl ins, unfolded acc']
      show ?thesis
        unfolding loop acc' ih n seedsTried_Suc
        using ins by (simp add: comp_def add.assoc)
    qed
  qed
qed

lemma trackFromXYZ_eq:
  "trackFromXYZ S rnd k (x, y, z) =
     (if x < 0 \<or> x > hdr_dim (niiDIR S) 1 - 1 \<or>
         y < 0 \<or> y > hdr_dim (niiDIR S) 2 - 1 \<or>
         z < 0 \<or> z > hdr_dim (niiDIR S) 3 - 1
      then ([], k)
      else (concat (map (\<lambda>i. seedFibers S (x, y, z) (seedPoint S rnd (k + 3 * i) (x, y, z)))
                      (seedsTried S rnd (x, y, z) k (nat (seeds (CONFIG S))))),
            k + 3 * min (nat (seeds (CONFIG S)))
                        (Suc (length (seedsTried S rnd (x, y, z) k (nat (seeds (CONFIG S))))))))"
  by (simp add: trackFromXYZ_def seedLoop_eq)

lemma trackFromXYZ_member:
  assumes "f \<in> set (fst (trackFromXYZ S rnd k xyz))"
  shows "\<exists>sd\<in>{0, 1, 2}. \<exists>i. volFrac S xyz sd > volFracThr (CONFIG S) \<and>
           f = growFiber S (seedPoint S rnd (k + 3 * i) xyz) (candDir S xyz sd)"
proof -
  obtain x y z where xyz: "xyz = (x, y, z)" by (cases xyz)
  from assms obtain i where "f \<in> set (seedFibers S xyz (seedPoint S rnd (k + 3 * i) xyz))"
    unfolding xyz trackFromXYZ_eq by (auto split: if_splits)
  then have "f \<in> (\<lambda>sd. growFiber S (seedPoint S rnd (k + 3 * i) xyz) (candDir S xyz sd)) `
                {sd \<in> set [0, 1, 2]. volFrac S xyz sd > volFracThr (CONFIG S)}"
    unfolding seedFibers_def by (simp only: set_map set_filter)
  then obtain sd where "sd \<in> set [0, 1, 2]" "volFrac S xyz sd > volFracThr (CONFIG S)"
      "f = growFiber S (seedPoint S rnd (k + 3 * i) xyz) (candDir S xyz sd)"
    by blast
  moreover from this have "sd \<in> {0, 1, 2}" by simp
  ultimately show ?thesis by blast
qed

text \<open>
  For \<open>2 \<le> maxLength\<close> every fiber that \<open>trackFromXYZ\<close> returns has a recorded length of
  at least 2, which is the number of its points, and holds the seed point next to the
  first advance from it along the direction of a ranked candidate of the seed voxel: the
  two points are stored before either pass of the stepping loop runs.  For
  \<open>maxLength = 1\<close> the two columns overlap and the seed point is lost, as the run of
  the line example with \<open>maxLength = 1\<close> shows.
\<close>

lemma fiber_has_seed_and_first_advance:
  assumes "2 \<le> maxLength (CONFIG S)"
  shows "\<forall>(fib, len) \<in> set (fst (trackFromXYZ S rnd k xyz)).
      2 \<le> len \<and> int (length fib) = len \<and>
      (\<exists>sd\<in>{0, 1, 2}. \<exists>i a b.
          fib = a @ [advance (seedPoint S rnd (k + 3 * i) xyz) (stepSize (CONFIG S)) (candDir S xyz sd),
                     seedPoint S rnd (k + 3 * i) xyz] @ b)"
proof (clarify)
  fix fib len assume "(fib, len) \<in> set (fst (trackFromXYZ S rnd k xyz))"
  from trackFromXYZ_member[OF this] obtain sd i where sd: "sd \<in> {0, 1, 2}"
    and g: "growFiber S (seedPoint S rnd (k + 3 * i) xyz) (candDir S xyz sd) = (fib, len)"
    by metis
  from growFiber_result[OF g] growFiber_points[OF g assms] sd
  show "2 \<le> len \<and> int (length fib) = len \<and>
      (\<exists>sd\<in>{0, 1, 2}. \<exists>i a b.
          fib = a @ [advance (seedPoint S rnd (k + 3 * i) xyz) (stepSize (CONFIG S)) (candDir S xyz sd),
                     seedPoint S rnd (k + 3 * i) xyz] @ b)"
    by blast
qed

lemma fiber_length_bound:
  assumes "(fib, len) \<in> set (fst (trackFromXYZ S rnd k xyz))"
  shows "2 \<le> len \<and> len \<le> max 2 (maxLength (CONFIG S))"
proof -
  from trackFromXYZ_member[OF assms] obtain sd i where
    g: "growFiber S (seedPoint S rnd (k + 3 * i) xyz) (candDir S xyz sd) = (fib, len)"
    by metis
  from growFiber_result[OF g] show ?thesis by simp
qed

lemma voxelStep_no_fibers:
  assumes "\<And>k xyz. fst (trackFromXYZ S rnd k xyz) = []"
  shows "\<exists>k'. foldl (voxelStep S rnd) (recs, tot, k) vs = (recs, tot, k')"
proof (induction vs arbitrary: k)
  case Nil
  then show ?case by simp
next
  case (Cons v vs)
  obtain x y z where v: "v = (x, y, z)" by (cases v)
  obtain k1 where t: "trackFromXYZ S rnd k v = ([], k1)"
    using assms[of k v] by (cases "trackFromXYZ S rnd k v") auto
  have "\<exists>k2. voxelStep S rnd (recs, tot, k) v = (recs, tot, k2)"
    using t by (auto simp: voxelStep_def v split: option.splits)
  then obtain k2 where "voxelStep S rnd (recs, tot, k) v = (recs, tot, k2)" ..
  with Cons.IH[of k2] show ?case by simp
qed

text \<open>
  Claim C2.  For every threshold \<open>volFracThr\<close>: the candidate that \<open>pickBestDir\<close> selects
  has a volume fraction strictly above the threshold; every fiber that \<open>trackFromXYZ\<close>
  returns was started along a ranked direction of the seed voxel whose volume fraction
  is strictly above the threshold; and when every volume fraction of the direction field
  is 0 and the threshold is 0, direction selection fails everywhere, no seed voxel yields
  a fiber, and \<open>doTracking\<close> writes no fiber and counts none.
\<close>

theorem volume_fraction_gate:
  "(\<forall>v. pickBestDir S voxel d = Some v \<longrightarrow>
      (\<exists>i\<in>{0, 1, 2}. \<bar>pickIdx S voxel d\<bar> = i + 1 \<and>
          volFrac S voxel i > volFracThr (CONFIG S) \<and>
          v = signCorrected d (candDir S voxel i))) \<and>
   (\<forall>f\<in>set (fst (trackFromXYZ S rnd k xyz)).
      \<exists>sd\<in>{0, 1, 2}. \<exists>i. volFrac S xyz sd > volFracThr (CONFIG S) \<and>
          f = growFiber S (seedPoint S rnd (k + 3 * i) xyz) (candDir S xyz sd)) \<and>
   ((\<forall>vox. \<forall>i\<in>{0, 1, 2}. volFrac S vox i = 0) \<and> volFracThr (CONFIG S) = 0 \<longrightarrow>
      pickBestDir S voxel d = None \<and>
      fst (trackFromXYZ S rnd k xyz) = [] \<and>
      fst (doTracking S rnd k) = [] \<and> fst (snd (doTracking S rnd k)) = 0)"
proof (intro conjI allI impI ballI)
  fix v assume B: "pickBestDir S voxel d = Some v"
  then have nz: "pickIdx S voxel d \<noteq> 0" by (auto simp: pickBestDir_def Let_def split: if_splits)
  with pickIdx_cases[of S voxel d] obtain i where i: "i \<in> {0, 1, 2}"
    "pickIdx S voxel d = (if dotProd d (candDir S voxel i) > 0 then i + 1 else - (i + 1))"
    "qualifies S voxel d i" "\<bar>dotProd d (candDir S voxel i)\<bar> > 0"
    by blast
  from pickBestDir_of_idx[OF i(1) _ i(2)] i(4) B
  have "v = signCorrected d (candDir S voxel i)" by auto
  moreover have "\<bar>pickIdx S voxel d\<bar> = i + 1" using i(1,2) by auto
  moreover have "volFrac S voxel i > volFracThr (CONFIG S)" using i(3) by (simp add: qualifies_def)
  ultimately show "\<exists>i\<in>{0, 1, 2}. \<bar>pickIdx S voxel d\<bar> = i + 1 \<and>
          volFrac S voxel i > volFracThr (CONFIG S) \<and> v = signCorrected d (candDir S voxel i)"
    using i(1) by blast
next
  fix f assume "f \<in> set (fst (trackFromXYZ S rnd k xyz))"
  then show "\<exists>sd\<in>{0, 1, 2}. \<exists>i. volFrac S xyz sd > volFracThr (CONFIG S) \<and>
          f = growFiber S (seedPoint S rnd (k + 3 * i) xyz) (candDir S xyz sd)"
    by (rule trackFromXYZ_member)
next
  assume Z: "(\<forall>vox. \<forall>i\<in>{0, 1, 2}. volFrac S vox i = 0) \<and> volFracThr (CONFIG S) = 0"
  have none: "\<And>k xyz. fst (trackFromXYZ S rnd k xyz) = []"
  proof -
    fix k xyz
    have "\<forall>f. f \<notin> set (fst (trackFromXYZ S rnd k xyz))"
    proof (intro allI notI)
      fix f assume "f \<in> set (fst (trackFromXYZ S rnd k xyz))"
      from trackFromXYZ_member[OF this] obtain sd where "sd \<in> {0, 1, 2}"
        "volFrac S xyz sd > volFracThr (CONFIG S)" by blast
      moreover from Z this(1) have "volFrac S xyz sd = 0" "volFracThr (CONFIG S) = 0" by blast+
      ultimately show False by simp
    qed
    then show "fst (trackFromXYZ S rnd k xyz) = []" by (meson last_in_set)
  qed
  show "pickBestDir S voxel d = None"
  proof (cases "pickBestDir S voxel d")
    case (Some v)
    then have nz: "pickIdx S voxel d \<noteq> 0" by (auto simp: pickBestDir_def Let_def split: if_splits)
    with pickIdx_cases[of S voxel d] obtain i where i: "i \<in> {0, 1, 2}" "qualifies S voxel d i"
      by blast
    from Z i(1) have "volFrac S voxel i = 0" "volFracThr (CONFIG S) = 0" by blast+
    with i(2) show ?thesis by (simp add: qualifies_def)
  qed simp
  show "fst (trackFromXYZ S rnd k xyz) = []" by (rule none)
  from voxelStep_no_fibers[of S rnd "[]" 0 k "rasterVoxels S", OF none]
  show "fst (doTracking S rnd k) = []" "fst (snd (doTracking S rnd k)) = 0"
    by (auto simp: doTracking_def)
qed

text \<open>
  Claim C5, as the code has it.  \<open>trackFromXYZ\<close> tries the seed points of a voxel in
  order up to the first one that is outside the white matter: the fibers it returns are
  those of the points before it, and the random source has then produced the failing
  point and none of the later ones.
\<close>

theorem seed_outside_stops_voxel:
  "trackFromXYZ S rnd k (x, y, z) =
     (if x < 0 \<or> x > hdr_dim (niiDIR S) 1 - 1 \<or>
         y < 0 \<or> y > hdr_dim (niiDIR S) 2 - 1 \<or>
         z < 0 \<or> z > hdr_dim (niiDIR S) 3 - 1
      then ([], k)
      else (concat (map (\<lambda>i. seedFibers S (x, y, z) (seedPoint S rnd (k + 3 * i) (x, y, z)))
                      (seedsTried S rnd (x, y, z) k (nat (seeds (CONFIG S))))),
            k + 3 * min (nat (seeds (CONFIG S)))
                        (Suc (length (seedsTried S rnd (x, y, z) k (nat (seeds (CONFIG S))))))))"
  by (rule trackFromXYZ_eq)

section \<open>Properties of the Unique reduction\<close>

lemma cells_firstOfRuns: "map cellOf (firstOfRuns ps) = remdups_adj (map cellOf ps)"
  by (induction ps rule: firstOfRuns.induct) simp_all

lemma firstOfRuns_Nil_iff: "firstOfRuns ps = [] \<longleftrightarrow> ps = []"
  by (induction ps rule: firstOfRuns.induct) simp_all

lemma firstOfRuns_snoc:
  "firstOfRuns (ps @ [p]) =
     (if ps = [] then [p]
      else if cellOf (last ps) = cellOf p then firstOfRuns ps else firstOfRuns ps @ [p])"
  by (induction ps rule: firstOfRuns.induct) auto

lemma flatten_snoc: "flatten (ps @ [(px, py, pz)]) =
    flatten ps @ [px + TRACKVIS_VOXEL_OFFSET, py + TRACKVIS_VOXEL_OFFSET, pz + TRACKVIS_VOXEL_OFFSET]"
  by (simp add: flatten_def)

lemma uniqueLoop_eq:
  "foldl uniqueStep ((0, []), (0, 0, 0), 0) ps =
     (if ps = [] then ((0, []), (0, 0, 0), 0)
      else ((3 * int (length (firstOfRuns ps)), flatten (firstOfRuns ps)),
            cellOf (last ps), int (length (firstOfRuns ps))))"
proof (induction ps rule: rev_induct)
  case Nil
  then show ?case by simp
next
  case (snoc p ps)
  obtain px py pz where p: "p = (px, py, pz)" by (cases p)
  show ?case
  proof (cases "ps = []")
    case True
    then show ?thesis
      by (simp add: uniqueStep_def putPoint_def p cellOf_def flatten_def Let_def)
  next
    case False
    then have pos: "3 * int (length (firstOfRuns ps)) \<noteq> 0"
      by (simp add: firstOfRuns_Nil_iff)
    obtain cx cy cz where c: "cellOf (last ps) = (cx, cy, cz)" by (cases "cellOf (last ps)")
    have "foldl uniqueStep ((0, []), (0, 0, 0), 0) (ps @ [p]) =
        uniqueStep ((3 * int (length (firstOfRuns ps)), flatten (firstOfRuns ps)),
            (cx, cy, cz), int (length (firstOfRuns ps))) (px, py, pz)"
      using False by (simp add: snoc.IH c p)
    also have "\<dots> =
        (if cellOf (last ps) = cellOf p
         then ((3 * int (length (firstOfRuns ps)), flatten (firstOfRuns ps)),
               cellOf p, int (length (firstOfRuns ps)))
         else ((3 * int (length (firstOfRuns ps)) + 3, flatten (firstOfRuns ps @ [p])),
               cellOf p, int (length (firstOfRuns ps)) + 1))"
    proof -
      have cp: "cellOf (px, py, pz) = (floor_to_int px, floor_to_int py, floor_to_int pz)"
        by (simp add: cellOf_def)
      show ?thesis
        using pos by (auto simp: uniqueStep_def putPoint_def Let_def c p cp flatten_snoc)
    qed
    finally show ?thesis
      using False by (simp add: firstOfRuns_snoc)
  qed
qed

lemma TrackVis_append_unique_eq:
  assumes "numPoints = int (length fiber)" and "numPoints \<le> maxSteps"
  shows "TrackVis_append fiber numPoints TRACKVIS_SAVE_UNIQUE =
      Some (int (length (firstOfRuns fiber)), flatten (firstOfRuns fiber))"
proof -
  have pts: "map (\<lambda>i. fiber ! i) [0..<nat numPoints] = fiber"
    using assms(1) by (simp add: map_nth)
  show ?thesis
    using assms(2)
    by (simp add: TrackVis_append_def pts uniqueLoop_eq TRACKVIS_SAVE_UNIQUE_def
        TRACKVIS_SAVE_HALF_def flatten_def)
qed

text \<open>
  What \<open>append\<close> does with the method \<open>TRACKVIS_SAVE_UNIQUE\<close> for a fiber of at most
  \<open>maxSteps\<close> points: it writes the number of kept points and their coordinates, where
  the kept points are the first point of every run of consecutive points with the same
  floor of their coordinates.  These cells are the voxels of the white-matter mask only
  when its voxel size is 1.
\<close>

lemma unique_reduction_by_cells:
  assumes "numPoints = int (length fiber)" and "numPoints \<le> maxSteps"
  shows "\<exists>pts. TrackVis_append fiber numPoints TRACKVIS_SAVE_UNIQUE = Some (int (length pts), flatten pts) \<and>
           pts = firstOfRuns fiber \<and>
           map cellOf pts = remdups_adj (map cellOf fiber) \<and>
           distinct_adj (map cellOf pts)"
  using TrackVis_append_unique_eq[OF assms] by (simp add: cells_firstOfRuns)

section \<open>Properties of the orchestrator\<close>

text \<open>
  Rounding to float: an integer below \<open>2^24\<close> in absolute value is a float, and a real
  with \<open>2^n \<le> |x| < 2^(n+1)\<close>, \<open>n \<le> 23\<close>, is rounded to a multiple of \<open>2^(n-23)\<close>.
\<close>

lemma round_even_of_int: "round_even (of_int k) = k"
  by (simp add: round_even_def)

lemma float32_in_binade:
  assumes "2 ^ n \<le> \<bar>x\<bar>" "\<bar>x\<bar> < 2 ^ Suc n" "n \<le> 23"
  shows "float32 x = of_int (round_even (x * 2 ^ (23 - n))) / 2 ^ (23 - n)"
proof -
  have "(0::real) < 2 ^ n" by simp
  with assms(1) have "0 < \<bar>x\<bar>" by linarith
  then have x0: "x \<noteq> 0" "0 < \<bar>x\<bar>" by auto
  have "2 powr (of_int (int n)) \<le> \<bar>x\<bar> \<and> \<bar>x\<bar> < 2 powr (of_int (int n + 1))"
    using assms(1,2) by (simp add: powr_realpow powr_add)
  then have fl: "\<lfloor>log 2 \<bar>x\<bar>\<rfloor> = int n"
    using floor_log_eq_powr_iff[of "\<bar>x\<bar>" 2 "int n"] x0 by simp
  have e: "max (\<lfloor>log 2 \<bar>x\<bar>\<rfloor> - 23) (- 149) = - int (23 - n)"
    using assms(3) by (simp add: fl)
  have p: "(2::real) powr of_int (- int (23 - n)) = 1 / 2 ^ (23 - n)"
    by (simp add: powr_minus powr_realpow inverse_eq_divide)
  show ?thesis
    using x0 by (simp add: float32_def e p Let_def del: of_int_minus of_int_of_nat_eq)
qed

lemma float32_of_int:
  assumes "\<bar>k\<bar> < 2 ^ 24"
  shows "float32 (of_int k) = of_int k"
proof (cases "k = 0")
  case True then show ?thesis by (simp add: float32_def)
next
  case False
  define x :: real where "x = of_int k"
  have ax: "\<bar>x\<bar> = of_int \<bar>k\<bar>" by (simp add: x_def)
  have "1 \<le> \<bar>k\<bar>" using False by simp
  then have "(1::real) \<le> of_int \<bar>k\<bar>" by (simp only: of_int_1_le_iff)
  moreover have "real_of_int \<bar>k\<bar> < of_int (2 ^ 24)" using assms by (simp only: of_int_less_iff)
  ultimately have x1: "1 \<le> \<bar>x\<bar>" "\<bar>x\<bar> < 2 ^ 24" by (simp_all add: ax)
  define n where "n = nat \<lfloor>log 2 \<bar>x\<bar>\<rfloor>"
  have l0: "0 \<le> log 2 \<bar>x\<bar>" using x1 by simp
  have "log 2 \<bar>x\<bar> < 24" using x1 by (simp add: log_less_iff powr_realpow[symmetric])
  then have n23: "n \<le> 23" unfolding n_def using l0 by linarith
  have "\<lfloor>log 2 \<bar>x\<bar>\<rfloor> = int n" using l0 by (simp add: n_def)
  then have "2 powr (of_int (int n)) \<le> \<bar>x\<bar> \<and> \<bar>x\<bar> < 2 powr (of_int (int n + 1))"
    using floor_log_eq_powr_iff[of "\<bar>x\<bar>" 2 "int n"] x1 by simp
  then have b: "2 ^ n \<le> \<bar>x\<bar>" "\<bar>x\<bar> < 2 ^ Suc n"
    by (simp_all add: powr_realpow powr_add)
  have "x * 2 ^ (23 - n) = of_int (k * 2 ^ (23 - n))" by (simp add: x_def)
  then have "round_even (x * 2 ^ (23 - n)) = k * 2 ^ (23 - n)"
    by (simp only: round_even_of_int)
  with float32_in_binade[OF b n23] show ?thesis by (simp add: x_def)
qed


lemma lengthFilter_eq:
  assumes "1 \<le> len" and "len \<le> maxSteps"
  shows "lengthFilter S len =
     (float32 (float32 (real_of_int (len - 1) * stepSize (CONFIG S)) * hdr_pixdim (niiDIR S) 1)
        \<ge> float32 (real_of_int (minLength (CONFIG S))))"
proof -
  have "0 \<le> len - 1" "len - 1 < 2 ^ 32" using assms by (simp_all add: maxSteps_def)
  then have m: "(len - 1) mod 2 ^ 32 = len - 1" by simp
  have "\<bar>len - 1\<bar> < 2 ^ 24" using assms by (simp add: maxSteps_def)
  from float32_of_int[OF this] show ?thesis by (simp only: lengthFilter_def m)
qed

lemma lengthFilter_integers:
  assumes "stepSize (CONFIG S) = of_int a" and "hdr_pixdim (niiDIR S) 1 = of_int b"
      and "1 \<le> len" and "len \<le> maxSteps"
      and "\<bar>(len - 1) * a\<bar> < 2 ^ 24" and "\<bar>(len - 1) * a * b\<bar> < 2 ^ 24"
      and "\<bar>minLength (CONFIG S)\<bar> < 2 ^ 24"
  shows "lengthFilter S len \<longleftrightarrow> minLength (CONFIG S) \<le> (len - 1) * a * b"
proof -
  have 1: "float32 (real_of_int (len - 1) * of_int a) = of_int ((len - 1) * a)"
    using float32_of_int[OF assms(5)] by simp
  have 2: "float32 (real_of_int ((len - 1) * a) * of_int b) = of_int ((len - 1) * a * b)"
    using float32_of_int[OF assms(6)] by simp
  show ?thesis
    unfolding lengthFilter_eq[OF assms(3,4)] assms(1,2) 1 2 float32_of_int[OF assms(7)]
    by (simp only: of_int_le_iff)
qed

lemma TrackVis_append_Some:
  assumes "len \<le> maxSteps"
  shows "\<exists>r. TrackVis_append fib len m = Some r"
  using assms by (auto simp: TrackVis_append_def Let_def split: prod.splits)

lemma saveLoop_eq:
  assumes "\<forall>(fib, len)\<in>set found. 1 \<le> len \<and> len \<le> maxSteps"
  shows "\<exists>new. foldl (saveStep S) (recs, tot) found = (recs @ new, tot + int (length new)) \<and>
           map Some new =
             map (\<lambda>(fib, len). TrackVis_append fib len TRACKVIS_SAVE_UNIQUE)
               (filter (\<lambda>(fib, len).
                   float32 (float32 (real_of_int (len - 1) * stepSize (CONFIG S)) * hdr_pixdim (niiDIR S) 1)
                     \<ge> float32 (real_of_int (minLength (CONFIG S)))) found)"
  using assms
proof (induction found arbitrary: recs tot)
  case Nil
  then show ?case by simp
next
  case (Cons f found)
  obtain fib len where f: "f = (fib, len)" by (cases f)
  from Cons.prems f have len: "1 \<le> len" "len \<le> maxSteps" by auto
  from Cons.prems have rest: "\<forall>(fib, len)\<in>set found. 1 \<le> len \<and> len \<le> maxSteps" by simp
  show ?case
  proof (cases "lengthFilter S len")
    case True
    from TrackVis_append_Some[OF len(2)] obtain r where r: "TrackVis_append fib len TRACKVIS_SAVE_UNIQUE = Some r"
      by blast
    from Cons.IH[OF rest, of "recs @ [r]" "tot + 1"] obtain new where
      new: "foldl (saveStep S) (recs @ [r], tot + 1) found = ((recs @ [r]) @ new, tot + 1 + int (length new))"
        "map Some new =
             map (\<lambda>(fib, len). TrackVis_append fib len TRACKVIS_SAVE_UNIQUE)
               (filter (\<lambda>(fib, len).
                   float32 (float32 (real_of_int (len - 1) * stepSize (CONFIG S)) * hdr_pixdim (niiDIR S) 1)
                     \<ge> float32 (real_of_int (minLength (CONFIG S)))) found)"
      by blast
    have step: "saveStep S (recs, tot) (fib, len) = (recs @ [r], tot + 1)"
      using True r by (simp add: saveStep_def)
    show ?thesis
      using new True r lengthFilter_eq[OF len, of S]
      by (intro exI[of _ "r # new"]) (simp add: step f)
  next
    case False
    from Cons.IH[OF rest, of recs tot] obtain new where
      new: "foldl (saveStep S) (recs, tot) found = (recs @ new, tot + int (length new))"
        "map Some new =
             map (\<lambda>(fib, len). TrackVis_append fib len TRACKVIS_SAVE_UNIQUE)
               (filter (\<lambda>(fib, len).
                   float32 (float32 (real_of_int (len - 1) * stepSize (CONFIG S)) * hdr_pixdim (niiDIR S) 1)
                     \<ge> float32 (real_of_int (minLength (CONFIG S)))) found)"
      by blast
    have step: "saveStep S (recs, tot) (fib, len) = (recs, tot)"
      using False by (simp add: saveStep_def)
    show ?thesis
      using new False lengthFilter_eq[OF len, of S]
      by (intro exI[of _ new]) (simp add: step f)
  qed
qed

lemma voxelLoop_eq:
  assumes "maxLength (CONFIG S) \<le> 1000"
  shows "\<exists>new. foldl (voxelStep S rnd) (recs, tot, k) vs =
                 (recs @ new, tot + int (length new), snd (foundAll S rnd k vs)) \<and>
           map Some new =
             map (\<lambda>(fib, len). TrackVis_append fib len TRACKVIS_SAVE_UNIQUE)
               (filter (\<lambda>(fib, len).
                   float32 (float32 (real_of_int (len - 1) * stepSize (CONFIG S)) * hdr_pixdim (niiDIR S) 1)
                     \<ge> float32 (real_of_int (minLength (CONFIG S))))
                 (fst (foundAll S rnd k vs)))"
proof (induction vs arbitrary: recs tot k)
  case Nil
  then show ?case by simp
next
  case (Cons xyz vs)
  obtain x y z where xyz: "xyz = (x, y, z)" by (cases xyz)
  have c: "(case niiSEED S of None \<Rightarrow> False
            | Some seed \<Rightarrow> (case xyz of (x, y, z) \<Rightarrow> img seed x y z = 0)) =
           (case niiSEED S of None \<Rightarrow> False | Some seed \<Rightarrow> img seed x y z = 0)"
    by (simp add: xyz split: option.splits)
  show ?case
  proof (cases "case niiSEED S of None \<Rightarrow> False | Some seed \<Rightarrow> img seed x y z = 0")
    case True
    then have v: "voxelStep S rnd (recs, tot, k) xyz = (recs, tot, k)"
      by (simp add: voxelStep_def xyz)
    have fa: "foundAll S rnd k (xyz # vs) = foundAll S rnd k vs"
      using True by (simp only: foundAll.simps c if_True)
    from Cons.IH[of recs tot k] show ?thesis unfolding fa by (simp add: v)
  next
    case False
    obtain found k1 where t: "trackFromXYZ S rnd k (x, y, z) = (found, k1)"
      by (cases "trackFromXYZ S rnd k (x, y, z)")
    obtain rest k2 where r: "foundAll S rnd k1 vs = (rest, k2)"
      by (cases "foundAll S rnd k1 vs")
    have bounds: "\<forall>(fib, len)\<in>set found. 1 \<le> len \<and> len \<le> maxSteps"
    proof (clarify)
      fix fib len assume m: "(fib, len) \<in> set found"
      then have m': "(fib, len) \<in> set (fst (trackFromXYZ S rnd k (x, y, z)))" by (simp add: t)
      from fiber_length_bound[OF m'] assms have "2 \<le> len" "len \<le> 1000" by (auto simp: max_def split: if_splits)
      then show "1 \<le> len \<and> len \<le> maxSteps" by (simp add: maxSteps_def)
    qed
    from saveLoop_eq[OF bounds, of S recs tot] obtain new1 where
      new1: "foldl (saveStep S) (recs, tot) found = (recs @ new1, tot + int (length new1))"
        "map Some new1 =
             map (\<lambda>(fib, len). TrackVis_append fib len TRACKVIS_SAVE_UNIQUE)
               (filter (\<lambda>(fib, len).
                   float32 (float32 (real_of_int (len - 1) * stepSize (CONFIG S)) * hdr_pixdim (niiDIR S) 1)
                     \<ge> float32 (real_of_int (minLength (CONFIG S)))) found)"
      by blast
    have v: "voxelStep S rnd (recs, tot, k) xyz = (recs @ new1, tot + int (length new1), k1)"
      using False by (simp add: voxelStep_def xyz t new1(1))
    from Cons.IH[of "recs @ new1" "tot + int (length new1)" k1] obtain new2 where
      new2: "foldl (voxelStep S rnd) (recs @ new1, tot + int (length new1), k1) vs =
                 ((recs @ new1) @ new2, tot + int (length new1) + int (length new2), k2)"
        "map Some new2 =
             map (\<lambda>(fib, len). TrackVis_append fib len TRACKVIS_SAVE_UNIQUE)
               (filter (\<lambda>(fib, len).
                   float32 (float32 (real_of_int (len - 1) * stepSize (CONFIG S)) * hdr_pixdim (niiDIR S) 1)
                     \<ge> float32 (real_of_int (minLength (CONFIG S)))) rest)"
      by (auto simp: r)
    have fa: "foundAll S rnd k (xyz # vs) = (found @ rest, k2)"
      using False by (simp only: foundAll.simps c if_False) (simp add: xyz t r)
    show ?thesis
      unfolding fa
      using new1(2) new2
      by (intro exI[of _ "new1 @ new2"]) (simp add: v)
  qed
qed

text \<open>
  Claim C4, as the code has it.  For a tracker with \<open>maxLength\<close> at most 1000,
  \<open>doTracking\<close> appends to the file the records of exactly those fibers, among all the
  fibers that the growth engine produces at the voxels of the seed mask, for which the
  product \<open>(length - 1) * stepSize * pixdim[1]\<close>, computed in single precision with each
  of the two multiplications rounded to float, is at least \<open>minLength\<close>; the records
  are in the order of the fibers and the total returned is their number; the other
  fibers leave no trace and raise no error.  When the step size and the voxel size are
  integers and the products stay below \<open>2^24\<close>, no rounding occurs and the filter is the
  comparison of the exact product.  With step size 1, voxel size 1 and
  \<open>minLength = 10\<close> a fiber of length 11 passes the filter and a fiber of length 10 does
  not.
\<close>

theorem length_filter_single_precision:
  assumes "maxLength (CONFIG S) \<le> 1000"
  shows "(\<exists>recs. doTracking S rnd k =
                   (recs, int (length recs), snd (foundAll S rnd k (rasterVoxels S))) \<and>
            map Some recs =
              map (\<lambda>(fib, len). TrackVis_append fib len TRACKVIS_SAVE_UNIQUE)
                (filter (\<lambda>(fib, len).
                    float32 (float32 (real_of_int (len - 1) * stepSize (CONFIG S)) * hdr_pixdim (niiDIR S) 1)
                      \<ge> float32 (real_of_int (minLength (CONFIG S))))
                  (fst (foundAll S rnd k (rasterVoxels S))))) \<and>
         (stepSize (CONFIG S) = of_int a \<and> hdr_pixdim (niiDIR S) 1 = of_int b \<and>
          1 \<le> len \<and> len \<le> 1000 \<and> \<bar>(len - 1) * a\<bar> < 2 ^ 24 \<and> \<bar>(len - 1) * a * b\<bar> < 2 ^ 24 \<and>
          \<bar>minLength (CONFIG S)\<bar> < 2 ^ 24 \<longrightarrow>
            (lengthFilter S len \<longleftrightarrow> minLength (CONFIG S) \<le> (len - 1) * a * b)) \<and>
         (stepSize (CONFIG S) = 1 \<and> hdr_pixdim (niiDIR S) 1 = 1 \<and> minLength (CONFIG S) = 10 \<longrightarrow>
            lengthFilter S 11 \<and> \<not> lengthFilter S 10)"
proof (intro conjI impI)
  from voxelLoop_eq[OF assms, of rnd "[]" 0 k "rasterVoxels S"]
  show "\<exists>recs. doTracking S rnd k =
                   (recs, int (length recs), snd (foundAll S rnd k (rasterVoxels S))) \<and>
            map Some recs =
              map (\<lambda>(fib, len). TrackVis_append fib len TRACKVIS_SAVE_UNIQUE)
                (filter (\<lambda>(fib, len).
                    float32 (float32 (real_of_int (len - 1) * stepSize (CONFIG S)) * hdr_pixdim (niiDIR S) 1)
                      \<ge> float32 (real_of_int (minLength (CONFIG S))))
                  (fst (foundAll S rnd k (rasterVoxels S))))"
    by (simp add: doTracking_def)
next
  assume h: "stepSize (CONFIG S) = of_int a \<and> hdr_pixdim (niiDIR S) 1 = of_int b \<and>
          1 \<le> len \<and> len \<le> 1000 \<and> \<bar>(len - 1) * a\<bar> < 2 ^ 24 \<and> \<bar>(len - 1) * a * b\<bar> < 2 ^ 24 \<and>
          \<bar>minLength (CONFIG S)\<bar> < 2 ^ 24"
  then have "len \<le> maxSteps" by (simp add: maxSteps_def)
  with h show "lengthFilter S len \<longleftrightarrow> minLength (CONFIG S) \<le> (len - 1) * a * b"
    by (intro lengthFilter_integers) auto
next
  assume h: "stepSize (CONFIG S) = 1 \<and> hdr_pixdim (niiDIR S) 1 = 1 \<and> minLength (CONFIG S) = 10"
  have "lengthFilter S 11 \<longleftrightarrow> minLength (CONFIG S) \<le> (11 - 1) * 1 * 1"
    using h by (intro lengthFilter_integers) (simp_all add: maxSteps_def)
  with h show "lengthFilter S 11" by simp
  have "lengthFilter S 10 \<longleftrightarrow> minLength (CONFIG S) \<le> (10 - 1) * 1 * 1"
    using h by (intro lengthFilter_integers) (simp_all add: maxSteps_def)
  with h show "\<not> lengthFilter S 10" by simp
qed

section \<open>Properties of the configuration steps\<close>

text \<open>
  Claim C7.  A seed mask whose voxel size or dimension differs from the direction field's
  on some axis makes \<open>setSeedMask\<close> print its error and exit with status 1, and a seed
  mask that agrees on all of them is stored.  A white-matter mask whose field of view
  differs on some axis makes \<open>setWhiteMatterMask\<close> print a warning; the mask is stored
  and the call returns in every case.
\<close>

theorem geometry_mismatch_asymmetry:
  "((hdr_pixdim seed 1 \<noteq> hdr_pixdim (niiDIR S) 1 \<or> hdr_pixdim seed 2 \<noteq> hdr_pixdim (niiDIR S) 2 \<or>
     hdr_pixdim seed 3 \<noteq> hdr_pixdim (niiDIR S) 3 \<or> hdr_dim seed 1 \<noteq> hdr_dim (niiDIR S) 1 \<or>
     hdr_dim seed 2 \<noteq> hdr_dim (niiDIR S) 2 \<or> hdr_dim seed 3 \<noteq> hdr_dim (niiDIR S) 3) \<longrightarrow>
      setSeedMask S (Some seed) = Inl (ERROR_seed_geometry, 1) \<and> (1 :: int) \<noteq> 0) \<and>
   ((hdr_pixdim seed 1 = hdr_pixdim (niiDIR S) 1 \<and> hdr_pixdim seed 2 = hdr_pixdim (niiDIR S) 2 \<and>
     hdr_pixdim seed 3 = hdr_pixdim (niiDIR S) 3 \<and> hdr_dim seed 1 = hdr_dim (niiDIR S) 1 \<and>
     hdr_dim seed 2 = hdr_dim (niiDIR S) 2 \<and> hdr_dim seed 3 = hdr_dim (niiDIR S) 3) \<longrightarrow>
      setSeedMask S (Some seed) = Inr (S\<lparr>niiSEED := Some seed\<rparr>)) \<and>
   ((of_int (hdr_dim wm 1) * hdr_pixdim wm 1 \<noteq> of_int (hdr_dim (niiDIR S) 1) * hdr_pixdim (niiDIR S) 1 \<or>
     of_int (hdr_dim wm 2) * hdr_pixdim wm 2 \<noteq> of_int (hdr_dim (niiDIR S) 2) * hdr_pixdim (niiDIR S) 2 \<or>
     of_int (hdr_dim wm 3) * hdr_pixdim wm 3 \<noteq> of_int (hdr_dim (niiDIR S) 3) * hdr_pixdim (niiDIR S) 3) \<longrightarrow>
      setWhiteMatterMask S wm = ([WARNING_FOV_mismatch], S\<lparr>niiMASK := wm\<rparr>)) \<and>
   snd (setWhiteMatterMask S wm) = S\<lparr>niiMASK := wm\<rparr>"
  by (simp add: setSeedMask_def setWhiteMatterMask_def)

text \<open>
  Claim C9, as the code has it.  \<open>main\<close> returns 1 with a message before it reads any
  dataset exactly when one of the paths \<open>dir\<close>, \<open>wm\<close>, \<open>out\<close> is missing or one of
  \<open>volFracThr\<close>, \<open>stepSize\<close>, \<open>maxLength\<close>, \<open>maxAngle\<close>, \<open>seeds\<close> is outside its range;
  otherwise it goes on with the parsed configuration.  The value of \<open>minLength\<close> plays no
  part in the outcome.
\<close>

theorem parameter_range_checks:
  "((\<exists>msg. main_checks opts = Inl (msg, 1)) =
      (\<not> has_dir opts \<or> \<not> has_wm opts \<or> \<not> has_out opts \<or>
       volFracThr (parsed opts) < 0 \<or> volFracThr (parsed opts) > 1 \<or>
       stepSize (parsed opts) \<le> 0 \<or> stepSize (parsed opts) > 4 \<or>
       maxLength (parsed opts) < 1 \<or> maxLength (parsed opts) > 1000 \<or>
       maxAngle (parsed opts) < 1 \<or> maxAngle (parsed opts) > 90 \<or>
       seeds (parsed opts) < 1 \<or> seeds (parsed opts) > 64)) \<and>
   ((\<exists>msg. main_checks opts = Inl (msg, 1)) \<or> main_checks opts = Inr (parsed opts)) \<and>
   ((\<exists>msg. main_checks (opts\<lparr>parsed := (parsed opts)\<lparr>minLength := m\<rparr>\<rparr>) = Inl (msg, 1)) =
      (\<exists>msg. main_checks opts = Inl (msg, 1)))"
  by (auto simp: main_checks_def Let_def)

section \<open>Properties of the TrackVis header\<close>

lemma offsets:
  "offsetof f_id_string = 0" "offsetof f_dim = 6" "offsetof f_voxel_size = 12"
  "offsetof f_origin = 24" "offsetof f_n_scalars = 36" "offsetof f_scalar_name = 38"
  "offsetof f_n_properties = 238" "offsetof f_property_name = 240" "offsetof f_reserved = 440"
  "offsetof f_voxel_order = 948" "offsetof f_pad2 = 952"
  "offsetof f_image_orientation_patient = 956" "offsetof f_pad1 = 980"
  "offsetof f_invert_x = 982" "offsetof f_invert_y = 983" "offsetof f_invert_z = 984"
  "offsetof f_swap_xy = 985" "offsetof f_swap_yz = 986" "offsetof f_swap_zx = 987"
  "offsetof f_n_count = 988" "offsetof f_version = 992" "offsetof f_hdr_size = 996"
  by (simp_all add: offsetof_def TrackVis_header_fields_def align_up_def)

lemma sizeof_hdr: "sizeof_TrackVis_header = 1000"
  by (simp add: sizeof_TrackVis_header_def TrackVis_header_fields_def align_up_def)

lemma length_store: "length (store off bs mem) = max (length mem) (off + length bs)"
  by (auto simp: store_def)

lemma load_store_same: "n = length bs \<Longrightarrow> load off n (store off bs mem) = bs"
  by (simp add: load_def store_def)

lemma load_store_before:
  "off + n \<le> off' \<Longrightarrow> off + n \<le> length mem \<Longrightarrow> load off n (store off' bs mem) = load off n mem"
  by (simp add: load_def store_def drop_take min_def)

lemma load_store_after:
  "off' + length bs \<le> off \<Longrightarrow> load off n (store off' bs mem) = load off n mem"
proof -
  assume a: "off' + length bs \<le> off"
  have l: "length (take off' (mem @ replicate (off' - length mem) 0)) = off'" by simp
  have "drop off (store off' bs mem) = drop (off - off' - length bs) (drop (off' + length bs) mem)"
    unfolding store_def using a l by (simp del: length_take)
  also have "\<dots> = drop off mem" using a by simp
  finally show ?thesis by (simp add: load_def)
qed

lemma word16_bytes16: "word16 (bytes16 w) = w"
  unfolding word16_def bytes16_def
  by (rule bit_word_eqI) (auto simp: bit_simps)

lemma word32_bytes32: "word32 (bytes32 w) = w"
  unfolding word32_def bytes32_def
  apply (rule bit_word_eqI)
  apply (auto simp: bit_simps)
  subgoal for n by (cases "24 \<le> n") simp_all
  done

lemma length_bytes [simp]: "length (bytes16 v) = 2" "length (bytes32 w) = 4"
  by (simp_all add: bytes16_def bytes32_def)

lemma createLoop_valid:
  assumes "\<forall>i<3. 0 < sint (dims i) \<and> \<not> float_le_zero (pixdim i)"
  shows "createLoop dims pixdim [0, 1, 2] h =
    (True,
     set_word f_origin 2 float_0 (set_word f_voxel_size 2 (pixdim 2) (set_short f_dim 2 (dims 2)
     (set_word f_origin 1 float_0 (set_word f_voxel_size 1 (pixdim 1) (set_short f_dim 1 (dims 1)
     (set_word f_origin 0 float_0 (set_word f_voxel_size 0 (pixdim 0) (set_short f_dim 0 (dims 0) h)))))))))"
proof -
  from assms have "0 < sint (dims 0) \<and> \<not> float_le_zero (pixdim 0)"
    "0 < sint (dims 1) \<and> \<not> float_le_zero (pixdim 1)"
    "0 < sint (dims 2) \<and> \<not> float_le_zero (pixdim 2)" by simp_all
  then show ?thesis by simp
qed

lemma createdHdr_eq:
  assumes "\<forall>i<3. 0 < sint (dims i) \<and> \<not> float_le_zero (pixdim i)"
  shows "createdHdr dims pixdim h =
     set_chars f_id_string [84, 82, 65, 67, 75, 0]
       (createFields
     (set_word f_origin 2 float_0 (set_word f_voxel_size 2 (pixdim 2) (set_short f_dim 2 (dims 2)
     (set_word f_origin 1 float_0 (set_word f_voxel_size 1 (pixdim 1) (set_short f_dim 1 (dims 1)
     (set_word f_origin 0 float_0 (set_word f_voxel_size 0 (pixdim 0) (set_short f_dim 0 (dims 0) h))))))))))"
  unfolding createdHdr_def createLoop_valid[OF assms] snd_conv ..

lemmas hdr_simps = createFields_def set_short_def set_word_def set_chars_def
  get_short_def get_word_def offsets length_store load_store_same load_store_before
  load_store_after word16_bytes16 word32_bytes32

lemma length_createdHdr:
  assumes "\<forall>i<3. 0 < sint (dims i) \<and> \<not> float_le_zero (pixdim i)" and "length h = 1000"
  shows "length (createdHdr dims pixdim h) = 1000"
  by (simp add: createdHdr_eq[OF assms(1)] hdr_simps assms(2))

lemma createdHdr_dim:
  assumes "\<forall>i<3. 0 < sint (dims i) \<and> \<not> float_le_zero (pixdim i)" and "length h = 1000"
  shows "get_short f_dim 0 (createdHdr dims pixdim h) = dims 0"
    "get_short f_dim 1 (createdHdr dims pixdim h) = dims 1"
    "get_short f_dim 2 (createdHdr dims pixdim h) = dims 2"
  by (simp_all add: createdHdr_eq[OF assms(1)] hdr_simps assms(2))

lemma createdHdr_voxel_size:
  assumes "\<forall>i<3. 0 < sint (dims i) \<and> \<not> float_le_zero (pixdim i)" and "length h = 1000"
  shows "get_word f_voxel_size 0 (createdHdr dims pixdim h) = pixdim 0"
    "get_word f_voxel_size 1 (createdHdr dims pixdim h) = pixdim 1"
    "get_word f_voxel_size 2 (createdHdr dims pixdim h) = pixdim 2"
  by (simp_all add: createdHdr_eq[OF assms(1)] hdr_simps assms(2))

lemma createdHdr_counts:
  assumes "\<forall>i<3. 0 < sint (dims i) \<and> \<not> float_le_zero (pixdim i)" and "length h = 1000"
  shows "get_word f_n_count 0 (createdHdr dims pixdim h) = 0"
    "get_word f_version 0 (createdHdr dims pixdim h) = 1"
    "get_word f_hdr_size 0 (createdHdr dims pixdim h) = 1000"
  by (simp_all add: createdHdr_eq[OF assms(1)] hdr_simps assms(2))

lemma store_empty: "store 0 bs [] = bs"
  by (simp add: store_def)

lemma store_at_end: "off = length mem \<Longrightarrow> store off bs mem = mem @ bs"
  by (simp add: store_def)

lemma store_append: "off + length bs \<le> length m1 \<Longrightarrow> store off bs (m1 @ m2) = store off bs m1 @ m2"
  by (simp add: store_def)

lemma load_all: "n = length mem \<Longrightarrow> load 0 n (mem @ rest) = mem"
  by (simp add: load_def)

lemma store_over: "length old \<le> length bs \<Longrightarrow> store 0 bs old = bs"
  by (simp add: store_def)

lemma length_new_hdr: "length (hdr (TrackVis_new g)) = 1000"
  by (simp add: TrackVis_new_def sizeof_hdr)

lemma TrackVis_update_all: "(T :: TrackVis)\<lparr>hdr := a, fp := b\<rparr> = \<lparr>hdr = a, fp = b\<rparr>"
  by (cases T) simp

lemma create_valid:
  assumes "\<forall>i<3. 0 < sint (dims i) \<and> \<not> float_le_zero (pixdim i)"
  shows "TrackVis_create (TrackVis_new g) dims pixdim True =
     (1, \<lparr>hdr = createdHdr dims pixdim (hdr (TrackVis_new g)),
          fp = Some \<lparr>contents = createdHdr dims pixdim (hdr (TrackVis_new g)), fpos = 1000\<rparr>\<rparr>)"
proof -
  let ?h = "createdHdr dims pixdim (hdr (TrackVis_new g))"
  have len: "length ?h = 1000" by (rule length_createdHdr[OF assms length_new_hdr])
  have l: "load 0 1000 ?h = ?h" using len by (simp add: load_def)
  have c: "createLoop dims pixdim [0, 1, 2] (hdr (TrackVis_new g)) =
      (True, snd (createLoop dims pixdim [0, 1, 2] (hdr (TrackVis_new g))))"
    by (simp only: createLoop_valid[OF assms] snd_conv)
  have T: "TrackVis_create (TrackVis_new g) dims pixdim True =
      (1, (TrackVis_new g)\<lparr>hdr := ?h, fp := Some (fwrite (load 0 1000 ?h) \<lparr>contents = [], fpos = 0\<rparr>)\<rparr>)"
    unfolding TrackVis_create_def by (subst c) (simp add: Let_def createdHdr_def del: createLoop.simps)
  show ?thesis
    unfolding T l TrackVis_update_all by (simp add: fwrite_def store_empty len)
qed

lemma store_session_valid:
  assumes "\<forall>i<3. 0 < sint (dims i) \<and> \<not> float_le_zero (pixdim i)"
  shows "store_session g dims pixdim body n =
     Some (store 988 (bytes32 n) (createdHdr dims pixdim (hdr (TrackVis_new g))) @ body)"
proof -
  let ?h = "createdHdr dims pixdim (hdr (TrackVis_new g))"
  have len: "length ?h = 1000" by (rule length_createdHdr[OF assms length_new_hdr])
  show ?thesis
    unfolding store_session_def create_valid[OF assms]
    by (simp add: TrackVis_updateTotal_def TrackVis_close_def fwrite_def fseek_set_def
        store_at_end len store_append)
qed

lemma open_session:
  assumes "length h = 1000"
  shows "TrackVis_open (TrackVis_new g') (Some (store 988 (bytes32 n) h @ body)) =
     (1000, \<lparr>hdr = store 988 (bytes32 n) h,
             fp = Some \<lparr>contents = store 988 (bytes32 n) h @ body, fpos = 1000\<rparr>\<rparr>)"
proof -
  have len: "length (store 988 (bytes32 n) h) = 1000" using assms by (simp add: length_store)
  have l: "load 0 1000 (store 988 (bytes32 n) h @ body) = store 988 (bytes32 n) h"
    using len by (simp add: load_all)
  show ?thesis
    unfolding TrackVis_open_def
    by (simp add: l Let_def len store_over length_new_hdr)
qed

text \<open>
  Claim C8.  For dimensions and voxel sizes that are all positive, \<open>create\<close> on a new
  object succeeds and leaves a file that is the 1000 bytes of the header, with fiber
  count 0, version 1 and header size 1000.  After any bytes written behind the header,
  \<open>updateTotal n\<close> and \<open>close\<close>, opening the file reads 1000 bytes into a header that
  has the same three dimensions, the same three voxel sizes, the fiber count \<open>n\<close>,
  version 1 and header size 1000.  The layout of the struct puts \<open>n_count\<close> at offset
  \<open>1000 - 12\<close>, the position \<open>updateTotal\<close> writes at, and the struct has 1000 bytes.
\<close>

theorem header_roundtrip:
  assumes "\<forall>i<3. 0 < sint (dims i) \<and> \<not> float_le_zero (pixdim i)"
  shows "(\<exists>T. TrackVis_create (TrackVis_new g) dims pixdim True = (1, T) \<and>
             map_option contents (fp T) = Some (hdr T) \<and> length (hdr T) = 1000 \<and>
             get_word f_n_count 0 (hdr T) = 0 \<and> get_word f_version 0 (hdr T) = 1 \<and>
             get_word f_hdr_size 0 (hdr T) = 1000) \<and>
         (\<exists>file T. store_session g dims pixdim body n = Some file \<and>
             TrackVis_open (TrackVis_new g') (Some file) = (1000, T) \<and>
             (\<forall>i<3. get_short f_dim i (hdr T) = dims i \<and>
                     get_word f_voxel_size i (hdr T) = pixdim i) \<and>
             get_word f_n_count 0 (hdr T) = n \<and> get_word f_version 0 (hdr T) = 1 \<and>
             get_word f_hdr_size 0 (hdr T) = 1000) \<and>
         offsetof f_n_count = 1000 - 12 \<and> sizeof_TrackVis_header = 1000"
proof (intro conjI)
  let ?h = "createdHdr dims pixdim (hdr (TrackVis_new g))"
  have len: "length ?h = 1000" by (rule length_createdHdr[OF assms length_new_hdr])
  note cnt = createdHdr_counts[OF assms length_new_hdr, of g]
  note dm = createdHdr_dim[OF assms length_new_hdr, of g]
  note vs = createdHdr_voxel_size[OF assms length_new_hdr, of g]
  show "\<exists>T. TrackVis_create (TrackVis_new g) dims pixdim True = (1, T) \<and>
             map_option contents (fp T) = Some (hdr T) \<and> length (hdr T) = 1000 \<and>
             get_word f_n_count 0 (hdr T) = 0 \<and> get_word f_version 0 (hdr T) = 1 \<and>
             get_word f_hdr_size 0 (hdr T) = 1000"
    unfolding create_valid[OF assms] using len cnt by simp
  let ?h' = "store 988 (bytes32 n) ?h"
  have rd16: "get_short f i ?h' = get_short f i ?h" if "offsetof f + 2 * i + 2 \<le> 988" for f i
    using that len by (simp add: get_short_def load_store_before)
  have rd32: "get_word f i ?h' = get_word f i ?h" if "offsetof f + 4 * i + 4 \<le> 988" for f i
    using that len by (simp add: get_word_def load_store_before)
  have rd32': "get_word f i ?h' = get_word f i ?h" if "992 \<le> offsetof f + 4 * i" for f i
    using that by (simp add: get_word_def load_store_after)
  have fields: "\<forall>i<3. get_short f_dim i ?h' = dims i \<and> get_word f_voxel_size i ?h' = pixdim i"
  proof (intro allI impI)
    fix i :: nat assume "i < 3"
    then consider "i = 0" | "i = 1" | "i = 2" by linarith
    then show "get_short f_dim i ?h' = dims i \<and> get_word f_voxel_size i ?h' = pixdim i"
      using dm vs by cases (simp_all add: rd16 rd32 offsets)
  qed
  have count: "get_word f_n_count 0 ?h' = n"
    by (simp add: get_word_def offsets load_store_same word32_bytes32)
  have rest: "get_word f_version 0 ?h' = 1" "get_word f_hdr_size 0 ?h' = 1000"
    by (simp_all add: rd32' offsets cnt)
  show "\<exists>file T. store_session g dims pixdim body n = Some file \<and>
             TrackVis_open (TrackVis_new g') (Some file) = (1000, T) \<and>
             (\<forall>i<3. get_short f_dim i (hdr T) = dims i \<and>
                     get_word f_voxel_size i (hdr T) = pixdim i) \<and>
             get_word f_n_count 0 (hdr T) = n \<and> get_word f_version 0 (hdr T) = 1 \<and>
             get_word f_hdr_size 0 (hdr T) = 1000"
  proof (intro exI conjI)
    show "store_session g dims pixdim body n = Some (?h' @ body)"
      by (rule store_session_valid[OF assms])
    show "TrackVis_open (TrackVis_new g') (Some (?h' @ body)) =
        (1000, \<lparr>hdr = ?h', fp = Some \<lparr>contents = ?h' @ body, fpos = 1000\<rparr>\<rparr>)"
      by (rule open_session[OF len])
  qed (use fields count rest in simp_all)
  show "offsetof f_n_count = 1000 - 12" by (simp add: offsets)
  show "sizeof_TrackVis_header = 1000" by (rule sizeof_hdr)
qed

section \<open>The example runs\<close>

lemmas ex_defs = pickBestDir_def pickIdx_def pickStep_def volFrac_def candDir_def dotProd_def
  Let_def voxelOf_def outsideWM_def advance_def vecDiff_def Normalize_def

lemmas buf_defs = getCol_def putCol_def reverseCols_def colsOf_def upto.simps

lemma exLine_pick1: "pickBestDir (exLine m n) (vx, 0, 0) (1, 0, 0) = Some (1, 0, 0)"
  by (simp add: ex_defs exLine_def)

lemma exLine_pick2: "pickBestDir (exLine m n) (vx, 0, 0) (- 1, 0, 0) = Some (- 1, 0, 0)"
  by (simp add: ex_defs exLine_def)

lemma exLine_w1:
  "whileLoop (exLine m 10) (5/2, 1/2, 1/2) (1, 0, 0) buf 2
     = ((7/2, 1/2, 1/2), (1, 0, 0), putCol 10 buf 2 (7/2, 1/2, 1/2), 3)"
  apply (subst whileLoop.simps)
  apply (simp add: ex_defs exLine_def)
  apply (subst whileLoop.simps)
  apply (simp add: ex_defs exLine_def)
  done

lemma exLine_w2:
  "whileLoop (exLine m 10) (3/2, 1/2, 1/2) (- 1, 0, 0) buf 3
     = ((- 1/2, 1/2, 1/2), (- 1, 0, 0),
        putCol 10 (putCol 10 buf 3 (1/2, 1/2, 1/2)) 4 (- 1/2, 1/2, 1/2), 5)"
  apply (subst whileLoop.simps)
  apply (simp add: ex_defs exLine_def)
  apply (subst whileLoop.simps)
  apply (simp add: ex_defs exLine_def)
  apply (subst whileLoop.simps)
  apply (simp add: ex_defs exLine_def)
  done

lemma exLine_grow:
  "growFiber (exLine m 10) (3/2, 1/2, 1/2) (1, 0, 0) =
     ([(7/2, 1/2, 1/2), (5/2, 1/2, 1/2), (3/2, 1/2, 1/2), (1/2, 1/2, 1/2), (- 1/2, 1/2, 1/2)], 5)"
proof -
  have a: "advance (3/2, 1/2, 1/2) (stepSize (CONFIG (exLine m 10))) (1, 0, 0) = (5/2, 1/2, 1/2)"
    by (simp add: advance_def exLine_def)
  have n: "maxLength (CONFIG (exLine m 10)) = 10" by (simp add: exLine_def)
  show ?thesis
    unfolding growFiber_def a n Let_def
    by (simp add: semiStep_def n vecDiff_def Normalize_def buf_defs exLine_w1 exLine_w2)
qed

lemma exLine_track:
  "trackFromXYZ (exLine m 10) exRnd 0 (1, 0, 0) =
     ([([(7/2, 1/2, 1/2), (5/2, 1/2, 1/2), (3/2, 1/2, 1/2), (1/2, 1/2, 1/2), (- 1/2, 1/2, 1/2)], 5)], 3)"
proof -
  have sp: "seedPoint (exLine m 10) exRnd 0 (1, 0, 0) = (3/2, 1/2, 1/2)"
    by (simp add: seedPoint_def exLine_def exRnd_def)
  have ins: "\<not> outsideWM (exLine m 10) (3/2, 1/2, 1/2)"
    by (simp add: outsideWM_def voxelOf_def exLine_def)
  have cd: "candDir (exLine m 10) (1, 0, 0) 0 = (1, 0, 0)" by (simp add: candDir_def exLine_def)
  have vf: "volFrac (exLine m 10) (1, 0, 0) 0 = 1" "volFrac (exLine m 10) (1, 0, 0) 1 = 0" "volFrac (exLine m 10) (1, 0, 0) 2 = 0"
    by (simp_all add: volFrac_def exLine_def)
  have thr: "volFracThr (CONFIG (exLine m 10)) = 0" "seeds (CONFIG (exLine m 10)) = 1" by (simp_all add: exLine_def)
  have b: "hdr_dim (niiDIR (exLine m 10)) = (\<lambda>k. if k = 1 then 3 else 1)"
    by (simp add: exLine_def)
  show ?thesis
    unfolding trackFromXYZ_def
    apply (simp add: b)
    apply (subst seedLoop.simps)
    apply (simp add: thr sp ins seedDirStep_def vf cd exLine_grow)
    apply (subst seedLoop.simps)
    apply (simp add: thr)
    done
qed


lemma exLine_grow_max1:
  "growFiber (exLine m 1) (3/2, 1/2, 1/2) (1, 0, 0) = ([(5/2, 1/2, 1/2), (1/2, 1/2, 1/2)], 2)"
proof -
  have w: "\<And>C d buf. whileLoop (exLine m 1) C d buf 2 = (C, d, buf, 2)"
    by (subst whileLoop.simps) (simp add: exLine_def)
  have a: "advance (3/2, 1/2, 1/2) (stepSize (CONFIG (exLine m 1))) (1, 0, 0) = (5/2, 1/2, 1/2)"
    by (simp add: advance_def exLine_def)
  have n: "maxLength (CONFIG (exLine m 1)) = 1" by (simp add: exLine_def)
  show ?thesis
    unfolding growFiber_def a n Let_def
    by (simp add: semiStep_def n w buf_defs)
qed


lemma exLine_track_max1:
  "trackFromXYZ (exLine m 1) exRnd 0 (1, 0, 0) = ([([(5/2, 1/2, 1/2), (1/2, 1/2, 1/2)], 2)], 3)"
proof -
  have sp: "seedPoint (exLine m 1) exRnd 0 (1, 0, 0) = (3/2, 1/2, 1/2)"
    by (simp add: seedPoint_def exLine_def exRnd_def)
  have ins: "\<not> outsideWM (exLine m 1) (3/2, 1/2, 1/2)"
    by (simp add: outsideWM_def voxelOf_def exLine_def)
  have cd: "candDir (exLine m 1) (1, 0, 0) 0 = (1, 0, 0)" by (simp add: candDir_def exLine_def)
  have vf: "volFrac (exLine m 1) (1, 0, 0) 0 = 1" "volFrac (exLine m 1) (1, 0, 0) 1 = 0"
    "volFrac (exLine m 1) (1, 0, 0) 2 = 0"
    by (simp_all add: volFrac_def exLine_def)
  have thr: "volFracThr (CONFIG (exLine m 1)) = 0" "seeds (CONFIG (exLine m 1)) = 1"
    by (simp_all add: exLine_def)
  have b: "hdr_dim (niiDIR (exLine m 1)) = (\<lambda>k. if k = 1 then 3 else 1)"
    by (simp add: exLine_def)
  show ?thesis
    unfolding trackFromXYZ_def
    apply (simp add: b)
    apply (subst seedLoop.simps)
    apply (simp add: thr sp ins seedDirStep_def vf cd exLine_grow_max1)
    apply (subst seedLoop.simps)
    apply (simp add: thr)
    done
qed

lemma exFine_first: "outsideWM exFine (seedPoint exFine exRnd2 0 (0, 0, 0))"
  by (simp add: outsideWM_def voxelOf_def seedPoint_def exFine_def exRnd2_def)

lemma exFine_second: "\<not> outsideWM exFine (seedPoint exFine exRnd2 3 (0, 0, 0))"
  by (simp add: outsideWM_def voxelOf_def seedPoint_def exFine_def exRnd2_def)

lemma exFine_tried: "seedsTried exFine exRnd2 (0, 0, 0) 0 (nat (seeds (CONFIG exFine))) = []"
proof -
  have "nat (seeds (CONFIG exFine)) = Suc (Suc 0)" by (simp add: exFine_def)
  then show ?thesis using exFine_first by (simp add: seedsTried_Suc)
qed

lemma exFine_track: "trackFromXYZ exFine exRnd2 0 (0, 0, 0) = ([], 3)"
  unfolding trackFromXYZ_eq exFine_tried by (simp add: exFine_def)

lemma exLine_append:
  "TrackVis_append [(7/2, 1/2, 1/2), (5/2, 1/2, 1/2), (3/2, 1/2, 1/2), (1/2, 1/2, 1/2), (- (1/2), 1/2, 1/2)] 5
      TRACKVIS_SAVE_UNIQUE =
   Some (5, [7/2, 1/2, 1/2, 5/2, 1/2, 1/2, 3/2, 1/2, 1/2, 1/2, 1/2, 1/2, - 1/2, 1/2, 1/2])"
  by (subst TrackVis_append_unique_eq)
     (simp_all add: maxSteps_def cellOf_def floor_to_int_def flatten_def TRACKVIS_VOXEL_OFFSET_def)

text \<open>
  Two points 10^9 apart, both beyond the range of \<open>int\<close>: the conversion gives
  \<open>-2^31\<close> for both and \<open>append\<close> keeps only the first.
\<close>

lemma unique_beyond_int_range:
  "TrackVis_append [(3000000000, 0, 0), (4000000000, 0, 0)] 2 TRACKVIS_SAVE_UNIQUE =
     Some (1, [3000000000, 0, 0])"
  by (subst TrackVis_append_unique_eq)
     (simp_all add: maxSteps_def cellOf_def floor_to_int_def flatten_def TRACKVIS_VOXEL_OFFSET_def)

lemma ex_valid: "\<forall>i<3. 0 < sint (exDims i) \<and> \<not> float_le_zero (exPixdim i)"
  by (simp add: exDims_def exPixdim_def float_le_zero_def float_isnan_def bit_simps)

text \<open>
  Float products at the boundary of the filter: ten steps of the float nearest to 0.7,
  three steps of the float nearest to 5/3, three thirds, and 36 steps of 0.7 on voxels of
  size 2.5.
\<close>

lemma float32_07: "float32 (10 * (11744051 / 16777216)) = 7"
  by (subst float32_in_binade[of 2]) (simp_all add: round_even_def)

lemma float32_53: "float32 (3 * (13981013 / 8388608)) = 5"
  by (subst float32_in_binade[of 2]) (simp_all add: round_even_def)

lemma float32_three_thirds: "float32 (3 * (11184811 / 33554432)) = 1"
  by (subst float32_in_binade[of 0]) (simp_all add: round_even_def)

lemma float32_63a: "float32 (36 * (11744051 / 16777216)) = 13212057 / 524288"
  by (subst float32_in_binade[of 4]) (simp_all add: round_even_def)

lemma float32_63b: "float32 (13212057 / 524288 * (5 / 2)) < 63"
  by (subst float32_in_binade[of 5]) (simp_all add: round_even_def)


text \<open>The runs on the row of four voxels.\<close>

lemma Normalize_pos: "0 < q \<Longrightarrow> Normalize (q, 0, 0) = (1, 0, 0)"
  by (simp add: Normalize_def)

lemma exStep_w:
  "whileLoop (exRow 1 exStepSize m) (18175317 / 8388608, 1/2, 1/2) (1, 0, 0) buf 2
     = ((46137343 / 8388608, 1/2, 1/2), (1, 0, 0),
        putCol 4 (putCol 4 buf 2 (16078165 / 4194304, 1/2, 1/2)) 3 (46137343 / 8388608, 1/2, 1/2), 4)"
  apply (subst whileLoop.simps)
  apply (simp add: ex_defs exRow_def exStepSize_def)
  apply (subst whileLoop.simps)
  apply (simp add: ex_defs exRow_def exStepSize_def)
  apply (subst whileLoop.simps)
  apply (simp add: ex_defs exRow_def exStepSize_def)
  done

lemma exRow_w_end: "whileLoop (exRow vox step m) C d buf 4 = (C, d, buf, 4)"
  by (subst whileLoop.simps) (simp add: exRow_def)

lemma exStep_grow:
  "growFiber (exRow 1 exStepSize m) (1/2, 1/2, 1/2) (1, 0, 0) =
     ([(46137343 / 8388608, 1/2, 1/2), (16078165 / 4194304, 1/2, 1/2),
       (18175317 / 8388608, 1/2, 1/2), (1/2, 1/2, 1/2)], 4)"
proof -
  have a: "advance (1/2, 1/2, 1/2) (stepSize (CONFIG (exRow 1 exStepSize m))) (1, 0, 0) =
             (18175317 / 8388608, 1/2, 1/2)"
    by (simp add: advance_def exRow_def exStepSize_def)
  have n: "maxLength (CONFIG (exRow 1 exStepSize m)) = 4" by (simp add: exRow_def)
  show ?thesis
    unfolding growFiber_def a n Let_def
    by (simp add: semiStep_def n vecDiff_def Normalize_pos buf_defs exStep_w exRow_w_end)
qed

lemma exRow_raster: "rasterVoxels (exRow vox step m) = [(0, 0, 0), (1, 0, 0), (2, 0, 0), (3, 0, 0)]"
  by (simp add: rasterVoxels_def exRow_def upto.simps)

lemma exStep_track:
  "trackFromXYZ (exRow 1 exStepSize m) exRnd 0 (0, 0, 0) =
     ([([(46137343 / 8388608, 1/2, 1/2), (16078165 / 4194304, 1/2, 1/2),
         (18175317 / 8388608, 1/2, 1/2), (1/2, 1/2, 1/2)], 4)], 3)"
proof -
  let ?S = "exRow 1 exStepSize m"
  have sp: "seedPoint ?S exRnd 0 (0, 0, 0) = (1/2, 1/2, 1/2)"
    by (simp add: seedPoint_def exRow_def exRnd_def)
  have ins: "\<not> outsideWM ?S (1/2, 1/2, 1/2)"
    by (simp add: outsideWM_def voxelOf_def exRow_def)
  have cd: "candDir ?S (0, 0, 0) 0 = (1, 0, 0)" by (simp add: candDir_def exRow_def)
  have vf: "volFrac ?S (0, 0, 0) 0 = 1" "volFrac ?S (0, 0, 0) 1 = 0" "volFrac ?S (0, 0, 0) 2 = 0"
    by (simp_all add: volFrac_def exRow_def)
  have thr: "volFracThr (CONFIG ?S) = 0" "seeds (CONFIG ?S) = 1" by (simp_all add: exRow_def)
  have b: "hdr_dim (niiDIR ?S) = (\<lambda>k. if k = 1 then 4 else 1)"
    by (simp add: exRow_def)
  show ?thesis
    unfolding trackFromXYZ_def
    apply (simp add: b)
    apply (subst seedLoop.simps)
    apply (simp add: thr sp ins seedDirStep_def vf cd exStep_grow)
    apply (subst seedLoop.simps)
    apply (simp add: thr)
    done
qed

lemma exRow_seed: "niiSEED (exRow vox step m) =
    Some \<lparr>hdr_dim = (\<lambda>k. if k = 1 then 4 else 1), hdr_pixdim = (\<lambda>k. vox),
          img = (\<lambda>x y z. if x = 0 then 1 else 0)\<rparr>"
  by (simp add: exRow_def)

lemma exStep_found:
  "foundAll (exRow 1 exStepSize m) exRnd 0 (rasterVoxels (exRow 1 exStepSize m)) =
     ([([(46137343 / 8388608, 1/2, 1/2), (16078165 / 4194304, 1/2, 1/2),
         (18175317 / 8388608, 1/2, 1/2), (1/2, 1/2, 1/2)], 4)], 3)"
  by (simp add: exRow_raster exRow_seed exStep_track)

lemma exStep_append:
  "TrackVis_append [(46137343 / 8388608, 1/2, 1/2), (16078165 / 4194304, 1/2, 1/2),
         (18175317 / 8388608, 1/2, 1/2), (1/2, 1/2, 1/2)] 4 TRACKVIS_SAVE_UNIQUE =
   Some (4, [46137343 / 8388608, 1/2, 1/2, 16078165 / 4194304, 1/2, 1/2,
             18175317 / 8388608, 1/2, 1/2, 1/2, 1/2, 1/2])"
  by (subst TrackVis_append_unique_eq)
     (simp_all add: maxSteps_def cellOf_def floor_to_int_def flatten_def TRACKVIS_VOXEL_OFFSET_def)

lemma float32_5: "float32 5 = 5"
  using float32_of_int[of 5] by simp

lemma exStep_product:
  "float32 (float32 (3 * stepSize (CONFIG (exRow 1 exStepSize m)))
      * hdr_pixdim (niiDIR (exRow 1 exStepSize m)) (Suc 0)) = 5"
proof -
  have s: "stepSize (CONFIG (exRow 1 exStepSize m)) = 13981013 / 8388608"
    "hdr_pixdim (niiDIR (exRow 1 exStepSize m)) = (\<lambda>k. 1)"
    by (simp_all add: exRow_def exStepSize_def)
  show ?thesis unfolding s by (simp only: float32_53 mult_1_right float32_5)
qed

lemma exCoarse_w:
  "whileLoop (exRow 2 1 m) (2, 1, 1) (1, 0, 0) buf 2
     = ((4, 1, 1), (1, 0, 0), putCol 4 (putCol 4 buf 2 (3, 1, 1)) 3 (4, 1, 1), 4)"
  apply (subst whileLoop.simps)
  apply (simp add: ex_defs exRow_def)
  apply (subst whileLoop.simps)
  apply (simp add: ex_defs exRow_def)
  apply (subst whileLoop.simps)
  apply (simp add: ex_defs exRow_def)
  done

lemma exCoarse_grow:
  "growFiber (exRow 2 1 m) (1, 1, 1) (1, 0, 0) = ([(4, 1, 1), (3, 1, 1), (2, 1, 1), (1, 1, 1)], 4)"
proof -
  have a: "advance (1, 1, 1) (stepSize (CONFIG (exRow 2 1 m))) (1, 0, 0) = (2, 1, 1)"
    by (simp add: advance_def exRow_def)
  have n: "maxLength (CONFIG (exRow 2 1 m)) = 4" by (simp add: exRow_def)
  show ?thesis
    unfolding growFiber_def a n Let_def
    by (simp add: semiStep_def n vecDiff_def Normalize_pos buf_defs exCoarse_w exRow_w_end)
qed

lemma exCoarse_track:
  "trackFromXYZ (exRow 2 1 m) exRnd 0 (0, 0, 0) =
     ([([(4, 1, 1), (3, 1, 1), (2, 1, 1), (1, 1, 1)], 4)], 3)"
proof -
  let ?S = "exRow 2 1 m"
  have sp: "seedPoint ?S exRnd 0 (0, 0, 0) = (1, 1, 1)"
    by (simp add: seedPoint_def exRow_def exRnd_def)
  have ins: "\<not> outsideWM ?S (1, 1, 1)"
    by (simp add: outsideWM_def voxelOf_def exRow_def)
  have cd: "candDir ?S (0, 0, 0) 0 = (1, 0, 0)" by (simp add: candDir_def exRow_def)
  have vf: "volFrac ?S (0, 0, 0) 0 = 1" "volFrac ?S (0, 0, 0) 1 = 0" "volFrac ?S (0, 0, 0) 2 = 0"
    by (simp_all add: volFrac_def exRow_def)
  have thr: "volFracThr (CONFIG ?S) = 0" "seeds (CONFIG ?S) = 1" by (simp_all add: exRow_def)
  have b: "hdr_dim (niiDIR ?S) = (\<lambda>k. if k = 1 then 4 else 1)"
    by (simp add: exRow_def)
  show ?thesis
    unfolding trackFromXYZ_def
    apply (simp add: b)
    apply (subst seedLoop.simps)
    apply (simp add: thr sp ins seedDirStep_def vf cd exCoarse_grow)
    apply (subst seedLoop.simps)
    apply (simp add: thr)
    done
qed

lemma exCoarse_found:
  "foundAll (exRow 2 1 m) exRnd 0 (rasterVoxels (exRow 2 1 m)) =
     ([([(4, 1, 1), (3, 1, 1), (2, 1, 1), (1, 1, 1)], 4)], 3)"
  by (simp add: exRow_raster exRow_seed exCoarse_track)

lemma exCoarse_append:
  "TrackVis_append [(4, 1, 1), (3, 1, 1), (2, 1, 1), (1, 1, 1)] 4 TRACKVIS_SAVE_UNIQUE =
   Some (4, [4, 1, 1, 3, 1, 1, 2, 1, 1, 1, 1, 1])"
  by (subst TrackVis_append_unique_eq)
     (simp_all add: maxSteps_def cellOf_def floor_to_int_def flatten_def TRACKVIS_VOXEL_OFFSET_def)

lemma exCoarse_filter:
  "lengthFilter (exRow 2 1 m) 4 \<longleftrightarrow> float32 (real_of_int m) \<le> 6"
proof -
  have "float32 3 = 3" "float32 6 = 6"
    using float32_of_int[of 3] float32_of_int[of 6] by simp_all
  then show ?thesis
    by (simp add: lengthFilter_eq maxSteps_def exRow_def)
qed

lemma exCoarse_doTracking:
  "doTracking (exRow 2 1 m) exRnd 0 =
     (if float32 (real_of_int m) \<le> 6 then ([(4, [4, 1, 1, 3, 1, 1, 2, 1, 1, 1, 1, 1])], 1, 3)
      else ([], 0, 3))"
  unfolding doTracking_def exRow_raster
  by (simp add: voxelStep_def exRow_seed exCoarse_track saveStep_def exCoarse_filter exCoarse_append)

lemma exStep_filter:
  "lengthFilter (exRow 1 exStepSize m) 4 \<longleftrightarrow> float32 (real_of_int m) \<le> 5"
proof -
  have "minLength (CONFIG (exRow 1 exStepSize m)) = m" by (simp add: exRow_def)
  then show ?thesis by (simp add: lengthFilter_eq maxSteps_def exStep_product)
qed

lemma exStep_doTracking:
  "doTracking (exRow 1 exStepSize m) exRnd 0 =
     (if float32 (real_of_int m) \<le> 5
      then ([(4, [46137343 / 8388608, 1/2, 1/2, 16078165 / 4194304, 1/2, 1/2,
                  18175317 / 8388608, 1/2, 1/2, 1/2, 1/2, 1/2])], 1, 3)
      else ([], 0, 3))"
  unfolding doTracking_def exRow_raster
  by (simp add: voxelStep_def exRow_seed exStep_track saveStep_def exStep_filter exStep_append)

section \<open>The claims on the examples\<close>

text \<open>Claim C2 on the line example and on the all-zero direction field.\<close>

theorem volume_fraction_gate_witness:
  "pickBestDir (exLine 0 10) (1, 0, 0) (1, 0, 0) = Some (1, 0, 0) \<and>
   (\<exists>i\<in>{0, 1, 2}. \<bar>pickIdx (exLine 0 10) (1, 0, 0) (1, 0, 0)\<bar> = i + 1 \<and>
       volFrac (exLine 0 10) (1, 0, 0) i > volFracThr (CONFIG (exLine 0 10)) \<and>
       (1, 0, 0) = signCorrected (1, 0, 0) (candDir (exLine 0 10) (1, 0, 0) i)) \<and>
   (\<exists>sd\<in>{0, 1, 2}. \<exists>i. volFrac (exLine 0 10) (1, 0, 0) sd > volFracThr (CONFIG (exLine 0 10)) \<and>
       ([(7/2, 1/2, 1/2), (5/2, 1/2, 1/2), (3/2, 1/2, 1/2), (1/2, 1/2, 1/2), (- 1/2, 1/2, 1/2)], 5) =
         growFiber (exLine 0 10) (seedPoint (exLine 0 10) exRnd (0 + 3 * i) (1, 0, 0))
           (candDir (exLine 0 10) (1, 0, 0) sd)) \<and>
   volFrac exZero = (\<lambda>vox i. 0) \<and> volFracThr (CONFIG exZero) = 0 \<and>
   pickBestDir exZero (1, 0, 0) (1, 0, 0) = None \<and>
   fst (trackFromXYZ exZero exRnd 0 (1, 0, 0)) = [] \<and>
   fst (doTracking exZero exRnd 0) = [] \<and> fst (snd (doTracking exZero exRnd 0)) = 0"
proof -
  note t1 = volume_fraction_gate[of "exLine 0 10" "(1, 0, 0)" "(1, 0, 0)" exRnd 0 "(1, 0, 0)"]
  note t2 = volume_fraction_gate[of exZero "(1, 0, 0)" "(1, 0, 0)" exRnd 0 "(1, 0, 0)"]
  have z: "volFrac exZero = (\<lambda>vox i. 0)"
    by (intro ext) (simp add: volFrac_def exZero_def split: prod.splits)
  have thr: "volFracThr (CONFIG exZero) = 0" by (simp add: exZero_def exLine_def)
  have a: "\<exists>i\<in>{0, 1, 2}. \<bar>pickIdx (exLine 0 10) (1, 0, 0) (1, 0, 0)\<bar> = i + 1 \<and>
       volFrac (exLine 0 10) (1, 0, 0) i > volFracThr (CONFIG (exLine 0 10)) \<and>
       (1, 0, 0) = signCorrected (1, 0, 0) (candDir (exLine 0 10) (1, 0, 0) i)"
    using t1 exLine_pick1[of 0 10 1] by blast
  have b: "\<exists>sd\<in>{0, 1, 2}. \<exists>i. volFrac (exLine 0 10) (1, 0, 0) sd > volFracThr (CONFIG (exLine 0 10)) \<and>
       ([(7/2, 1/2, 1/2), (5/2, 1/2, 1/2), (3/2, 1/2, 1/2), (1/2, 1/2, 1/2), (- 1/2, 1/2, 1/2)], 5) =
         growFiber (exLine 0 10) (seedPoint (exLine 0 10) exRnd (0 + 3 * i) (1, 0, 0))
           (candDir (exLine 0 10) (1, 0, 0) sd)"
    using t1 by (simp add: exLine_track)
  have c: "pickBestDir exZero (1, 0, 0) (1, 0, 0) = None \<and>
      fst (trackFromXYZ exZero exRnd 0 (1, 0, 0)) = [] \<and>
      fst (doTracking exZero exRnd 0) = [] \<and> fst (snd (doTracking exZero exRnd 0)) = 0"
    using t2 by (simp add: z thr)
  from a b c z thr exLine_pick1[of 0 10 1] show ?thesis by (intro conjI) simp_all
qed

text \<open>
  Claim C3 at \<open>maxLength = 1\<close>: the fiber grown from the middle voxel of the line example
  has the recorded length 2, which is above \<open>maxLength\<close>.  Both points are stored before
  the stepping loop tests \<open>step < maxLength\<close>, the second one in column 1 of a buffer
  that \<open>setConfig\<close> made with the single column 0: its floats land on rows 1 and 2 of
  column 0 and on the float behind the buffer, and the two points read back from the
  buffer are \<open>(5/2, 1/2, 1/2)\<close> and \<open>(1/2, 1/2, 1/2)\<close>.
\<close>

theorem maxLength_one_recorded_two:
  "maxLength (CONFIG (exLine 0 1)) = 1 \<and>
   trackFromXYZ (exLine 0 1) exRnd 0 (1, 0, 0) = ([([(5/2, 1/2, 1/2), (1/2, 1/2, 1/2)], 2)], 3)"
  by (simp add: exLine_track_max1) (simp add: exLine_def)

text \<open>
  Claim C4 on the row of voxels of size 2 with step size 1: the fiber of 4 points has the
  product 6 and is written for \<open>minLength = 6\<close> and dropped for \<open>minLength = 7\<close>; and on
  the line example with \<open>minLength = 10\<close>.
\<close>

theorem length_filter_single_precision_witness:
  "maxLength (CONFIG (exRow 2 1 6)) \<le> 1000 \<and> maxLength (CONFIG (exRow 2 1 7)) \<le> 1000 \<and>
   fst (foundAll (exRow 2 1 6) exRnd 0 (rasterVoxels (exRow 2 1 6))) =
     [([(4, 1, 1), (3, 1, 1), (2, 1, 1), (1, 1, 1)], 4)] \<and>
   fst (foundAll (exRow 2 1 7) exRnd 0 (rasterVoxels (exRow 2 1 7))) =
     [([(4, 1, 1), (3, 1, 1), (2, 1, 1), (1, 1, 1)], 4)] \<and>
   float32 (float32 (real_of_int (4 - 1) * stepSize (CONFIG (exRow 2 1 6))) * hdr_pixdim (niiDIR (exRow 2 1 6)) 1) = 6 \<and>
   float32 (real_of_int (minLength (CONFIG (exRow 2 1 6)))) = 6 \<and>
   float32 (real_of_int (minLength (CONFIG (exRow 2 1 7)))) = 7 \<and>
   doTracking (exRow 2 1 6) exRnd 0 = ([(4, [4, 1, 1, 3, 1, 1, 2, 1, 1, 1, 1, 1])], 1, 3) \<and>
   doTracking (exRow 2 1 7) exRnd 0 = ([], 0, 3) \<and>
   stepSize (CONFIG (exLine 10 10)) = of_int 1 \<and> hdr_pixdim (niiDIR (exLine 10 10)) 1 = of_int 1 \<and>
   (1 :: int) \<le> 11 \<and> (11 :: int) \<le> 1000 \<and> \<bar>(11 - 1) * 1\<bar> < (2 :: int) ^ 24 \<and>
   \<bar>(11 - 1) * 1 * 1\<bar> < (2 :: int) ^ 24 \<and> \<bar>minLength (CONFIG (exLine 10 10))\<bar> < 2 ^ 24 \<and>
   minLength (CONFIG (exLine 10 10)) = 10 \<and>
   lengthFilter (exLine 10 10) 11 \<and> \<not> lengthFilter (exLine 10 10) 10"
proof -
  have h: "maxLength (CONFIG (exRow 2 1 m)) \<le> 1000" for m by (simp add: exRow_def)
  have f: "float32 6 = 6" "float32 7 = 7" "float32 3 = 3"
    using float32_of_int[of 6] float32_of_int[of 7] float32_of_int[of 3] by simp_all
  have c: "stepSize (CONFIG (exRow 2 1 m)) = 1" "hdr_pixdim (niiDIR (exRow 2 1 m)) = (\<lambda>k. 2)"
    "minLength (CONFIG (exRow 2 1 m)) = m" for m
    by (simp_all add: exRow_def)
  have p: "float32 (float32 (real_of_int (4 - 1) * stepSize (CONFIG (exRow 2 1 6))) *
      hdr_pixdim (niiDIR (exRow 2 1 6)) 1) = 6"
    by (simp add: c f)
  from length_filter_single_precision[OF h[of 6], where rnd = exRnd and k = 0, THEN conjunct1]
  obtain recs6 where r6: "doTracking (exRow 2 1 6) exRnd 0 = (recs6, int (length recs6), 3)"
    "map Some recs6 = [Some (4, [4, 1, 1, 3, 1, 1, 2, 1, 1, 1, 1, 1])]"
    unfolding exCoarse_found by (auto simp: c f exCoarse_append)
  from r6(2) have "recs6 = [(4, [4, 1, 1, 3, 1, 1, 2, 1, 1, 1, 1, 1])]"
    by (auto simp: map_eq_Cons_conv)
  with r6(1) have 1: "doTracking (exRow 2 1 6) exRnd 0 = ([(4, [4, 1, 1, 3, 1, 1, 2, 1, 1, 1, 1, 1])], 1, 3)"
    by simp
  from length_filter_single_precision[OF h[of 7], where rnd = exRnd and k = 0, THEN conjunct1]
  obtain recs7 where r7: "doTracking (exRow 2 1 7) exRnd 0 = (recs7, int (length recs7), 3)"
    "map Some recs7 = []"
    unfolding exCoarse_found by (auto simp: c f)
  then have 2: "doTracking (exRow 2 1 7) exRnd 0 = ([], 0, 3)" by simp
  have b: "stepSize (CONFIG (exLine 10 10)) = of_int 1 \<and> hdr_pixdim (niiDIR (exLine 10 10)) 1 = of_int 1 \<and>
      minLength (CONFIG (exLine 10 10)) = 10"
    by (simp add: exLine_def)
  have ml: "maxLength (CONFIG (exLine 10 10)) \<le> 1000" by (simp add: exLine_def)
  from length_filter_single_precision[OF ml, where a = 1 and b = 1 and len = 11] b
  have 3: "lengthFilter (exLine 10 10) 11 \<and> \<not> lengthFilter (exLine 10 10) 10"
    by simp
  from h[of 6] h[of 7] 1 2 3 b p show ?thesis
    by (simp add: exCoarse_found c f)
qed

text \<open>
  Claim C4 with the exact product.  On the row of voxels of size 1 with the float nearest
  to 5/3 as step size and \<open>minLength = 5\<close>, the one fiber produced has 4 points; three
  steps are less than 5 in exact arithmetic, the float product is 5, and \<open>doTracking\<close>
  writes the fiber and counts it.  The same holds for the filter at ten steps of the
  float nearest to 0.7 with \<open>minLength = 7\<close>.
\<close>

theorem exact_product_below_minLength_counterexample:
  "map snd (fst (foundAll (exRow 1 exStepSize 5) exRnd 0 (rasterVoxels (exRow 1 exStepSize 5)))) = [4] \<and>
   real_of_int (4 - 1) * stepSize (CONFIG (exRow 1 exStepSize 5)) * hdr_pixdim (niiDIR (exRow 1 exStepSize 5)) 1
     < real_of_int (minLength (CONFIG (exRow 1 exStepSize 5))) \<and>
   map fst (fst (doTracking (exRow 1 exStepSize 5) exRnd 0)) = [4] \<and>
   fst (snd (doTracking (exRow 1 exStepSize 5) exRnd 0)) = 1 \<and>
   real_of_int (11 - 1) * stepSize (CONFIG (exRow 1 (11744051 / 16777216) 7))
       * hdr_pixdim (niiDIR (exRow 1 (11744051 / 16777216) 7)) 1
     < real_of_int (minLength (CONFIG (exRow 1 (11744051 / 16777216) 7))) \<and>
   lengthFilter (exRow 1 (11744051 / 16777216) 7) 11"
proof -
  have 1: "real_of_int (4 - 1) * stepSize (CONFIG (exRow 1 exStepSize 5)) * hdr_pixdim (niiDIR (exRow 1 exStepSize 5)) 1
     < real_of_int (minLength (CONFIG (exRow 1 exStepSize 5)))"
    by (simp add: exRow_def exStepSize_def)
  have 2: "real_of_int (11 - 1) * stepSize (CONFIG (exRow 1 (11744051 / 16777216) 7))
       * hdr_pixdim (niiDIR (exRow 1 (11744051 / 16777216) 7)) 1
     < real_of_int (minLength (CONFIG (exRow 1 (11744051 / 16777216) 7)))"
    by (simp add: exRow_def)
  have f: "float32 7 = 7" "float32 5 = 5"
    using float32_of_int[of 7] float32_of_int[of 5] by simp_all
  have c: "stepSize (CONFIG (exRow 1 (11744051 / 16777216) 7)) = 11744051 / 16777216"
    "hdr_pixdim (niiDIR (exRow 1 (11744051 / 16777216) 7)) = (\<lambda>k. 1)"
    "minLength (CONFIG (exRow 1 (11744051 / 16777216) 7)) = 7"
    by (simp_all add: exRow_def)
  have "float32 (float32 (10 * (11744051 / 16777216)) * 1) = 7"
    by (simp only: float32_07 mult_1_right f)
  then have 3: "lengthFilter (exRow 1 (11744051 / 16777216) 7) 11"
    by (simp add: lengthFilter_eq maxSteps_def c f)
  from 1 2 3 show ?thesis
    by (simp add: exStep_found exStep_doTracking f)
qed

text \<open>
  Claim C5 on the fine mask.  The first seed point is outside the white matter and the
  second is inside, in a voxel whose first direction passes the gate; \<open>trackFromXYZ\<close>
  returns no fiber and has drawn three random values, so the second point was never made.
\<close>

theorem seed_outside_stops_voxel_witness:
  "seedsTried exFine exRnd2 (0, 0, 0) 0 (nat (seeds (CONFIG exFine))) = [] \<and>
   trackFromXYZ exFine exRnd2 0 (0, 0, 0) = ([], 3)"
  using seed_outside_stops_voxel[of exFine exRnd2 0 0 0 0] exFine_tried
  by (simp add: exFine_def)

theorem later_seed_points_counterexample:
  "seeds (CONFIG exFine) = 2 \<and>
   outsideWM exFine (seedPoint exFine exRnd2 0 (0, 0, 0)) \<and>
   \<not> outsideWM exFine (seedPoint exFine exRnd2 3 (0, 0, 0)) \<and>
   volFrac exFine (0, 0, 0) 0 > volFracThr (CONFIG exFine) \<and>
   setWhiteMatterMask exFine (niiMASK exFine) = ([], exFine) \<and>
   trackFromXYZ exFine exRnd2 0 (0, 0, 0) = ([], 3) \<and>
   fst (trackFromXYZ exFine exRnd2 0 (0, 0, 0)) \<noteq>
     concat (map (\<lambda>i. seedFibers exFine (0, 0, 0) (seedPoint exFine exRnd2 (0 + 3 * i) (0, 0, 0)))
               (seedsClaimed exFine exRnd2 (0, 0, 0) 0 (nat (seeds (CONFIG exFine)))))"
proof -
  have n: "nat (seeds (CONFIG exFine)) = 2" "seeds (CONFIG exFine) = 2" by (simp_all add: exFine_def)
  have vf: "volFrac exFine (0, 0, 0) 0 > volFracThr (CONFIG exFine)"
    by (simp add: volFrac_def exFine_def)
  have "[0..<2] = [0, Suc 0]" by (simp add: numeral_2_eq_2)
  then have c: "seedsClaimed exFine exRnd2 (0, 0, 0) 0 2 = [1]"
    using exFine_first exFine_second by (simp add: seedsClaimed_def)
  have "seedFibers exFine (0, 0, 0) (seedPoint exFine exRnd2 3 (0, 0, 0)) \<noteq> []"
    using vf by (simp add: seedFibers_def)
  moreover have "setWhiteMatterMask exFine (niiMASK exFine) = ([], exFine)"
    by (simp add: setWhiteMatterMask_def exFine_def)
  ultimately show ?thesis
    using exFine_first exFine_second vf by (simp add: n c exFine_track)
qed

text \<open>
  Claim C6 on the row of voxels of size 2 with step size 1.  The fiber produced at the
  seed voxel is \<open>(4,1,1), (3,1,1), (2,1,1), (1,1,1)\<close>; \<open>doTracking\<close> writes it with the
  method \<open>TRACKVIS_SAVE_UNIQUE\<close> and all four points are in the record, although
  \<open>(3,1,1)\<close> and \<open>(2,1,1)\<close> are consecutive and lie in the same voxel \<open>(1,0,0)\<close> of the
  white-matter mask.
\<close>

theorem unique_keeps_points_of_one_mask_voxel:
  "hdr_pixdim (niiMASK (exRow 2 1 0)) = (\<lambda>k. 2) \<and>
   fst (trackFromXYZ (exRow 2 1 0) exRnd 0 (0, 0, 0)) =
     [([(4, 1, 1), (3, 1, 1), (2, 1, 1), (1, 1, 1)], 4)] \<and>
   doTracking (exRow 2 1 0) exRnd 0 = ([(4, [4, 1, 1, 3, 1, 1, 2, 1, 1, 1, 1, 1])], 1, 3) \<and>
   TrackVis_append [(4, 1, 1), (3, 1, 1), (2, 1, 1), (1, 1, 1)] 4 TRACKVIS_SAVE_UNIQUE =
     Some (4, [4, 1, 1, 3, 1, 1, 2, 1, 1, 1, 1, 1]) \<and>
   voxelOf (hdr_pixdim (niiMASK (exRow 2 1 0))) (3, 1, 1) = (1, 0, 0) \<and>
   voxelOf (hdr_pixdim (niiMASK (exRow 2 1 0))) (2, 1, 1) = (1, 0, 0)"
proof -
  have p: "hdr_pixdim (niiMASK (exRow 2 1 0)) = (\<lambda>k. 2)" by (simp add: exRow_def)
  have "float32 0 = 0" by (simp add: float32_def)
  then show ?thesis
    by (simp add: p exCoarse_track exCoarse_doTracking exCoarse_append voxelOf_def)
qed


text \<open>Claim C7 on the line example.\<close>

theorem geometry_mismatch_asymmetry_witness:
  "hdr_dim exSeedMask 1 \<noteq> hdr_dim (niiDIR (exLine 0 10)) 1 \<and>
   setSeedMask (exLine 0 10) (Some exSeedMask) = Inl (ERROR_seed_geometry, 1) \<and>
   setSeedMask (exLine 0 10) (Some (niiMASK (exLine 0 10))) =
     Inr ((exLine 0 10)\<lparr>niiSEED := Some (niiMASK (exLine 0 10))\<rparr>) \<and>
   of_int (hdr_dim exWideMask 1) * hdr_pixdim exWideMask 1 \<noteq>
     of_int (hdr_dim (niiDIR (exLine 0 10)) 1) * hdr_pixdim (niiDIR (exLine 0 10)) 1 \<and>
   setWhiteMatterMask (exLine 0 10) exWideMask =
     ([WARNING_FOV_mismatch], (exLine 0 10)\<lparr>niiMASK := exWideMask\<rparr>)"
proof -
  have a: "hdr_dim exSeedMask 1 \<noteq> hdr_dim (niiDIR (exLine 0 10)) 1"
    by (simp add: exSeedMask_def exLine_def)
  have b: "of_int (hdr_dim exWideMask 1) * hdr_pixdim exWideMask 1 \<noteq>
     of_int (hdr_dim (niiDIR (exLine 0 10)) 1) * hdr_pixdim (niiDIR (exLine 0 10)) 1"
    by (simp add: exWideMask_def exLine_def)
  have c: "hdr_pixdim (niiMASK (exLine 0 10)) = hdr_pixdim (niiDIR (exLine 0 10))"
     "hdr_dim (niiMASK (exLine 0 10)) = hdr_dim (niiDIR (exLine 0 10))"
    by (simp_all add: exLine_def)
  from geometry_mismatch_asymmetry[of exSeedMask "exLine 0 10" exWideMask] a b
  have 1: "setSeedMask (exLine 0 10) (Some exSeedMask) = Inl (ERROR_seed_geometry, 1)"
    and 2: "setWhiteMatterMask (exLine 0 10) exWideMask =
       ([WARNING_FOV_mismatch], (exLine 0 10)\<lparr>niiMASK := exWideMask\<rparr>)"
    by blast+
  from geometry_mismatch_asymmetry[of "niiMASK (exLine 0 10)" "exLine 0 10" exWideMask] c
  have 3: "setSeedMask (exLine 0 10) (Some (niiMASK (exLine 0 10))) =
     Inr ((exLine 0 10)\<lparr>niiSEED := Some (niiMASK (exLine 0 10))\<rparr>)"
    by simp
  from a b 1 2 3 show ?thesis by (intro conjI)
qed

text \<open>Claim C8 on the example grid, with three bytes behind the header and 1234 fibers.\<close>

theorem header_roundtrip_witness:
  "0 < sint (exDims 0) \<and> 0 < sint (exDims 1) \<and> 0 < sint (exDims 2) \<and>
   \<not> float_le_zero (exPixdim 0) \<and> \<not> float_le_zero (exPixdim 1) \<and> \<not> float_le_zero (exPixdim 2) \<and>
   (\<exists>file T. store_session [] exDims exPixdim [1, 2, 3] 1234 = Some file \<and>
       TrackVis_open (TrackVis_new []) (Some file) = (1000, T) \<and>
       get_short f_dim 0 (hdr T) = 96 \<and> get_short f_dim 1 (hdr T) = 96 \<and>
       get_short f_dim 2 (hdr T) = 60 \<and>
       get_word f_voxel_size 0 (hdr T) = 0x40000000 \<and>
       get_word f_voxel_size 1 (hdr T) = 0x40000000 \<and>
       get_word f_voxel_size 2 (hdr T) = 0x40000000 \<and>
       get_word f_n_count 0 (hdr T) = 1234 \<and> get_word f_version 0 (hdr T) = 1 \<and>
       get_word f_hdr_size 0 (hdr T) = 1000)"
proof -
  from header_roundtrip[OF ex_valid, of "[]" "[1, 2, 3]" 1234 "[]"]
  obtain disk T where s: "store_session [] exDims exPixdim [1, 2, 3] 1234 = Some disk"
    and t: "TrackVis_open (TrackVis_new []) (Some disk) = (1000, T)"
    and f: "\<forall>i<3. get_short f_dim i (hdr T) = exDims i \<and> get_word f_voxel_size i (hdr T) = exPixdim i"
    and c: "get_word f_n_count 0 (hdr T) = 1234" "get_word f_version 0 (hdr T) = 1"
      "get_word f_hdr_size 0 (hdr T) = 1000"
    by blast
  from f have "get_short f_dim 0 (hdr T) = 96 \<and> get_short f_dim 1 (hdr T) = 96 \<and>
       get_short f_dim 2 (hdr T) = 60 \<and>
       get_word f_voxel_size 0 (hdr T) = 0x40000000 \<and>
       get_word f_voxel_size 1 (hdr T) = 0x40000000 \<and>
       get_word f_voxel_size 2 (hdr T) = 0x40000000"
    by (simp add: exDims_def exPixdim_def)
  with s t c have "\<exists>file T. store_session [] exDims exPixdim [1, 2, 3] 1234 = Some file \<and>
       TrackVis_open (TrackVis_new []) (Some file) = (1000, T) \<and>
       get_short f_dim 0 (hdr T) = 96 \<and> get_short f_dim 1 (hdr T) = 96 \<and>
       get_short f_dim 2 (hdr T) = 60 \<and>
       get_word f_voxel_size 0 (hdr T) = 0x40000000 \<and>
       get_word f_voxel_size 1 (hdr T) = 0x40000000 \<and>
       get_word f_voxel_size 2 (hdr T) = 0x40000000 \<and>
       get_word f_n_count 0 (hdr T) = 1234 \<and> get_word f_version 0 (hdr T) = 1 \<and>
       get_word f_hdr_size 0 (hdr T) = 1000"
    by blast
  moreover from ex_valid have "0 < sint (exDims 0) \<and> 0 < sint (exDims 1) \<and> 0 < sint (exDims 2) \<and>
   \<not> float_le_zero (exPixdim 0) \<and> \<not> float_le_zero (exPixdim 1) \<and> \<not> float_le_zero (exPixdim 2)"
    by simp
  ultimately show ?thesis by simp
qed

text \<open>
  Claim C9 on the example command line: \<open>minLength = -5\<close> passes every check, and
  \<open>maxLength = 1001\<close> does not.
\<close>

theorem negative_minLength_counterexample:
  "minLength (parsed exOptions) < 0 \<and> main_checks exOptions = Inr (parsed exOptions)"
  by (simp add: main_checks_def exOptions_def)

theorem parameter_range_checks_witness:
  "maxLength (parsed (exOptions\<lparr>parsed := (parsed exOptions)\<lparr>maxLength := 1001\<rparr>\<rparr>)) > 1000 \<and>
   (\<exists>msg. main_checks (exOptions\<lparr>parsed := (parsed exOptions)\<lparr>maxLength := 1001\<rparr>\<rparr>) = Inl (msg, 1)) \<and>
   main_checks exOptions = Inr (parsed exOptions) \<and>
   main_checks (exOptions\<lparr>parsed := (parsed exOptions)\<lparr>minLength := 10\<rparr>\<rparr>) =
     Inr ((parsed exOptions)\<lparr>minLength := 10\<rparr>)"
proof -
  let ?bad = "exOptions\<lparr>parsed := (parsed exOptions)\<lparr>maxLength := 1001\<rparr>\<rparr>"
  have a: "maxLength (parsed ?bad) > 1000" by (simp add: exOptions_def)
  from parameter_range_checks[of ?bad 0] a
  have 1: "\<exists>msg. main_checks ?bad = Inl (msg, 1)" by blast
  have ok: "\<not> (\<not> has_dir exOptions \<or> \<not> has_wm exOptions \<or> \<not> has_out exOptions \<or>
       volFracThr (parsed exOptions) < 0 \<or> volFracThr (parsed exOptions) > 1 \<or>
       stepSize (parsed exOptions) \<le> 0 \<or> stepSize (parsed exOptions) > 4 \<or>
       maxLength (parsed exOptions) < 1 \<or> maxLength (parsed exOptions) > 1000 \<or>
       maxAngle (parsed exOptions) < 1 \<or> maxAngle (parsed exOptions) > 90 \<or>
       seeds (parsed exOptions) < 1 \<or> seeds (parsed exOptions) > 64)"
    by (simp add: exOptions_def)
  from parameter_range_checks[of exOptions 10] ok
  have 2: "main_checks exOptions = Inr (parsed exOptions)" by blast
  let ?ten = "exOptions\<lparr>parsed := (parsed exOptions)\<lparr>minLength := 10\<rparr>\<rparr>"
  from parameter_range_checks[of exOptions 10] 2
  have "\<not> (\<exists>msg. main_checks ?ten = Inl (msg, 1))" by simp
  with parameter_range_checks[of ?ten 10]
  have "main_checks ?ten = Inr (parsed ?ten)" by blast
  then have 3: "main_checks ?ten = Inr ((parsed exOptions)\<lparr>minLength := 10\<rparr>)" by simp
  from a 1 2 3 show ?thesis by (intro conjI)
qed

text \<open>
  Claim C10 at \<open>maxLength = 1\<close>: the fiber grown from the seed point \<open>(3/2, 1/2, 1/2)\<close>
  of the middle voxel of the line example has the recorded length 2, but the seed point
  is not among its two points: column 1 of the one-column buffer overlaps column 0, and
  the first advance has overwritten the second and third coordinate of the seed point
  before the columns are reversed.
\<close>

theorem seed_point_lost_at_maxLength_one:
  "maxLength (CONFIG (exLine 0 1)) = 1 \<and>
   seedPoint (exLine 0 1) exRnd 0 (1, 0, 0) = (3/2, 1/2, 1/2) \<and>
   fst (trackFromXYZ (exLine 0 1) exRnd 0 (1, 0, 0)) = [([(5/2, 1/2, 1/2), (1/2, 1/2, 1/2)], 2)] \<and>
   ((3/2, 1/2, 1/2) :: Vec3Df) \<notin> set [(5/2, 1/2, 1/2), (1/2, 1/2, 1/2)]"
  by (simp add: exLine_track_max1) (simp add: exLine_def seedPoint_def exRnd_def)

end
